theory Spec2Isabelle
  imports Main
begin

section \<open>Python values and built-ins used by the test framework\<close>

text \<open>
  The framework (\<^verbatim>\<open>adb_test.py\<close>, \<^verbatim>\<open>neo_test.py\<close>) is Python. Text is modelled as
  \<^typ>\<open>string\<close>, each \<^typ>\<open>char\<close> standing for one code point below 256. Exceptions
  are values of the type \<open>error\<close>: the three classes of \<^verbatim>\<open>adb_test.py\<close>
  (\<^verbatim>\<open>Error\<close> is never raised itself) and the built-in ones the modelled code can meet.
  Logging (\<^verbatim>\<open>log.info\<close>) changes nothing the code reads back and is left out.
\<close>

datatype error =
    ADBAssertionError string
  | InitializationError string
  | ValueError string
  | KeyError string
  | IndexError string
  | TypeError string
  | AttributeError string
  | TimeoutExpired "string list"
  | PatternError string

text \<open>\<open>isinstance(e, ADBAssertionError)\<close>, and \<open>isinstance(e, KeyError)\<close> as an
  \<^verbatim>\<open>except KeyError\<close> clause tests it.\<close>

fun is_ADBAssertionError :: "error \<Rightarrow> bool" where
  "is_ADBAssertionError (ADBAssertionError m) = True"
| "is_ADBAssertionError e = False"

fun is_KeyError :: "error \<Rightarrow> bool" where
  "is_KeyError (KeyError m) = True"
| "is_KeyError e = False"

definition sq :: string where
  "sq = [CHR 0x27]"

text \<open>\<open>sep.join(xs)\<close>.\<close>

fun py_join :: "string \<Rightarrow> string list \<Rightarrow> string" where
  "py_join sep [] = []"
| "py_join sep [x] = x"
| "py_join sep (x # y # ys) = x @ sep @ py_join sep (y # ys)"

text \<open>\<open>str.isspace\<close> on one code point below 256, and \<open>str.strip()\<close>.\<close>

definition py_isspace :: "char \<Rightarrow> bool" where
  "py_isspace c = (c \<in> set [CHR 0x09, CHR 0x0A, CHR 0x0B, CHR 0x0C, CHR 0x0D,
      CHR 0x1C, CHR 0x1D, CHR 0x1E, CHR 0x1F, CHR 0x20, CHR 0x85, CHR 0xA0])"

definition py_strip :: "string \<Rightarrow> string" where
  "py_strip s = rev (dropWhile py_isspace (rev (dropWhile py_isspace s)))"

text \<open>\<open>str.splitlines()\<close>: a line ends at a line boundary, \<open>\r\n\<close> counting as one;
  the boundaries are not kept and no empty last line is produced.\<close>

definition py_linebreak :: "char \<Rightarrow> bool" where
  "py_linebreak c = (c \<in> set [CHR 0x0A, CHR 0x0B, CHR 0x0C, CHR 0x0D,
      CHR 0x1C, CHR 0x1D, CHR 0x1E, CHR 0x85])"

fun splitlines_from :: "string \<Rightarrow> string \<Rightarrow> string list" where
  "splitlines_from cur [] = (if cur = [] then [] else [rev cur])"
| "splitlines_from cur (c # cs) =
     (if c = CHR 0x0D \<and> cs \<noteq> [] \<and> hd cs = CHR 0x0A then rev cur # splitlines_from [] (tl cs)
      else if py_linebreak c then rev cur # splitlines_from [] cs
      else splitlines_from (c # cur) cs)"

definition py_splitlines :: "string \<Rightarrow> string list" where
  "py_splitlines s = splitlines_from [] s"

text \<open>\<open>str(n)\<close> for an integer.\<close>

definition digit_char :: "nat \<Rightarrow> char" where
  "digit_char k = ''0123456789'' ! k"

fun str_nat :: "nat \<Rightarrow> string" where
  "str_nat n = (if n < 10 then [digit_char n] else str_nat (n div 10) @ [digit_char (n mod 10)])"

declare str_nat.simps [simp del]

definition py_str_int :: "int \<Rightarrow> string" where
  "py_str_int i = (if i < 0 then CHR ''-'' # str_nat (nat (- i)) else str_nat (nat i))"

text \<open>\<open>int(s)\<close> for a string: surrounding whitespace is dropped, then an optional sign
  and decimal digits follow, single underscores allowed between digits. Anything else
  raises \<^verbatim>\<open>ValueError\<close>, with a message that quotes the text. So does a text of more
  digits than \<open>sys.get_int_max_str_digits()\<close>, sign and underscores not counted: CPython
  limits the conversion from 3.11 on and in the security releases of 3.7 to 3.10, to 4300
  digits unless it is configured otherwise. The default is modelled. As in CPython, the run
  of digits and underscores after the sign is checked first, then its number of digits,
  then that nothing follows it.\<close>

definition int_max_str_digits :: nat where
  "int_max_str_digits = 4300"

definition py_isdigit :: "char \<Rightarrow> bool" where
  "py_isdigit c = (48 \<le> (of_char c :: nat) \<and> (of_char c :: nat) \<le> 57)"

fun digit_run :: "bool \<Rightarrow> string \<Rightarrow> bool" where
  "digit_run prev [] = prev"
| "digit_run prev (c # cs) =
     (if py_isdigit c then digit_run True cs
      else c = CHR ''_'' \<and> prev \<and> cs \<noteq> [] \<and> py_isdigit (hd cs) \<and> digit_run False cs)"

fun digit_value :: "nat \<Rightarrow> string \<Rightarrow> nat" where
  "digit_value acc [] = acc"
| "digit_value acc (c # cs) =
     (if py_isdigit c then digit_value (acc * 10 + (of_char c - 48)) cs else digit_value acc cs)"

definition digit_limit_message :: "nat \<Rightarrow> string" where
  "digit_limit_message digits =
     ''Exceeds the limit ('' @ str_nat int_max_str_digits
       @ '' digits) for integer string conversion: value has '' @ str_nat digits
       @ '' digits; use sys.set_int_max_str_digits() to increase the limit''"

definition py_int :: "string \<Rightarrow> error + int" where
  "py_int s =
     (let t = py_strip s;
          negative = (t \<noteq> [] \<and> hd t = CHR ''-'');
          body = (if t \<noteq> [] \<and> (hd t = CHR ''-'' \<or> hd t = CHR ''+'') then tl t else t);
          run = takeWhile (\<lambda>c. py_isdigit c \<or> c = CHR ''_'') body;
          digits = length (filter py_isdigit run);
          invalid = Inl (ValueError (''invalid literal for int() with base 10: '' @ sq @ s @ sq))
      in if \<not> digit_run False run then invalid
         else if digits > int_max_str_digits then Inl (ValueError (digit_limit_message digits))
         else if run \<noteq> body then invalid
         else Inr (if negative then - int (digit_value 0 run) else int (digit_value 0 run)))"

section \<open>Command results (\<^verbatim>\<open>adb_test.py\<close>, class \<^verbatim>\<open>CommandResult\<close>)\<close>

text \<open>A parsed JSON document as Python holds it: \<^verbatim>\<open>dict\<close> (in document order, a later
  duplicate key winning), \<^verbatim>\<open>list\<close>, \<^verbatim>\<open>str\<close>, \<^verbatim>\<open>int\<close>, \<^verbatim>\<open>float\<close> (kept as its
  literal), \<^verbatim>\<open>bool\<close> and \<^verbatim>\<open>None\<close>.\<close>

datatype json =
    JNull
  | JBool bool
  | JInt int
  | JFloat string
  | JStr string
  | JArr "json list"
  | JObj "(string \<times> json) list"

record completed_proc =
  returncode :: int
  stdout :: string
  stderr :: string

text \<open>\<^verbatim>\<open>json_data\<close> is an attribute that exists only once \<^verbatim>\<open>assert_json\<close> has stored it.\<close>

record command_result =
  command :: "string list"
  completed_proc :: completed_proc
  json_data :: "json option"

definition CommandResult :: "string list \<Rightarrow> completed_proc \<Rightarrow> command_result" where
  "CommandResult cmd cp = \<lparr>command = cmd, completed_proc = cp, json_data = None\<rparr>"

definition succeeded :: "command_result \<Rightarrow> bool" where
  "succeeded r = (returncode (completed_proc r) = 0)"

definition command_str :: "command_result \<Rightarrow> string" where
  "command_str r = py_join '' '' (command r)"

definition failure_message :: "command_result \<Rightarrow> string" where
  "failure_message r =
     (if succeeded r then ''SUCCEEDED: '' @ command_str r
      else ''FAILED ('' @ py_str_int (returncode (completed_proc r)) @ ''): '' @ command_str r @ ''\<newline>''
           @ ''STDERR='' @ stderr (completed_proc r) @ ''STDOUT='' @ stdout (completed_proc r))"

definition assert_succeeded :: "command_result \<Rightarrow> error + unit" where
  "assert_succeeded r = (if \<not> succeeded r then Inl (ADBAssertionError (failure_message r)) else Inr ())"

definition single_string_message :: "command_result \<Rightarrow> string" where
  "single_string_message r =
     ''FAILED: '' @ sq @ command_str r @ sq
       @ '' stdout was supposed to be a single string, but wasn'' @ sq @ ''t.\<newline>STDOUT was:\<newline>''
       @ stdout (completed_proc r)"

definition assert_string :: "command_result \<Rightarrow> error + string" where
  "assert_string r =
     (case assert_succeeded r of
        Inl e \<Rightarrow> Inl e
      | Inr _ \<Rightarrow>
          (let str_val = stdout (completed_proc r) in
           if length (py_strip str_val) = 0 \<or> length (py_splitlines str_val) > 1
           then Inl (ADBAssertionError (single_string_message r))
           else Inr (py_strip str_val)))"

definition integer_message :: "command_result \<Rightarrow> string" where
  "integer_message r =
     ''FAILED: '' @ sq @ command_str r @ sq
       @ '' stdout was supposed to be an integer, but wasn'' @ sq @ ''t.\<newline>STDOUT was:\<newline>''
       @ stdout (completed_proc r)"

text \<open>\<^verbatim>\<open>assert_int\<close>: only a \<^verbatim>\<open>ValueError\<close> of \<open>int()\<close> is caught and replaced; the
  \<^verbatim>\<open>ADBAssertionError\<close> of \<^verbatim>\<open>assert_string\<close> passes through the \<^verbatim>\<open>try\<close>.\<close>

definition assert_int :: "command_result \<Rightarrow> error + int" where
  "assert_int r =
     (case assert_string r of
        Inl e \<Rightarrow> Inl e
      | Inr s \<Rightarrow>
          (case py_int s of
             Inl e \<Rightarrow> Inl (ADBAssertionError (integer_message r))
           | Inr i \<Rightarrow> Inr i))"

section \<open>The library the results are read with\<close>

text \<open>
  Two functions of Python's standard library decide what the remaining methods return:
  \<open>re.search(pattern, text, re.MULTILINE)\<close> and \<open>json.loads(text)\<close>. They are not code of
  the framework, so every definition below takes them as a parameter \<open>lib\<close>, and the
  general theorems hold for whatever they compute. \<open>re.search\<close> returns a match object
  or \<^verbatim>\<open>None\<close>, or raises for a pattern it cannot compile; \<open>json.loads\<close> returns the
  document or raises \<^verbatim>\<open>JSONDecodeError\<close>, whose \<^verbatim>\<open>msg\<close> is the left value here.
\<close>

text \<open>A match object: the text matched and the capture groups 1, 2, ... of the pattern,
  a group that took no part in the match being \<^verbatim>\<open>None\<close>.\<close>

datatype re_match = Match string "string option list"

record pylib =
  re_search :: "string \<Rightarrow> string \<Rightarrow> error + re_match option"
  json_loads :: "string \<Rightarrow> string + json"

text \<open>\<open>m.group(i)\<close>: an index beyond the pattern's groups raises \<^verbatim>\<open>IndexError\<close>.\<close>

fun match_group :: "re_match \<Rightarrow> nat \<Rightarrow> error + string option" where
  "match_group (Match whole gs) 0 = Inr (Some whole)"
| "match_group (Match whole gs) (Suc i) =
     (if i < length gs then Inr (gs ! i) else Inl (IndexError ''no such group''))"

text \<open>\<open>str(x)\<close> for a string or \<^verbatim>\<open>None\<close>.\<close>

fun py_str :: "string option \<Rightarrow> string" where
  "py_str None = ''None''"
| "py_str (Some s) = s"

definition contains_in :: "pylib \<Rightarrow> string \<Rightarrow> string \<Rightarrow> error + bool" where
  "contains_in lib text pattern =
     (case re_search lib pattern text of
        Inl e \<Rightarrow> Inl e
      | Inr re_result \<Rightarrow> Inr (re_result \<noteq> None))"

definition contains :: "pylib \<Rightarrow> command_result \<Rightarrow> string \<Rightarrow> error + bool" where
  "contains lib r pattern = contains_in lib (stdout (completed_proc r)) pattern"

definition stderr_contains :: "pylib \<Rightarrow> command_result \<Rightarrow> string \<Rightarrow> error + bool" where
  "stderr_contains lib r pattern = contains_in lib (stderr (completed_proc r)) pattern"

definition match_message :: "command_result \<Rightarrow> string \<Rightarrow> string" where
  "match_message r pattern =
     ''FAILED: '' @ sq @ command_str r @ sq @ '' stdout was supposed to match regex '' @ sq @ pattern @ sq
       @ '', but didn'' @ sq @ ''t.\<newline>STDOUT was:\<newline>'' @ stdout (completed_proc r)"

definition assert_contains :: "pylib \<Rightarrow> command_result \<Rightarrow> string \<Rightarrow> error + unit" where
  "assert_contains lib r pattern =
     (case contains lib r pattern of
        Inl e \<Rightarrow> Inl e
      | Inr found \<Rightarrow> if \<not> found then Inl (ADBAssertionError (match_message r pattern)) else Inr ())"

definition search_in :: "pylib \<Rightarrow> string \<Rightarrow> string \<Rightarrow> error + string option" where
  "search_in lib text pattern =
     (case re_search lib pattern text of
        Inl e \<Rightarrow> Inl e
      | Inr None \<Rightarrow> Inr None
      | Inr (Some re_result) \<Rightarrow>
          (case match_group re_result 1 of
             Inl e \<Rightarrow> Inl e
           | Inr g \<Rightarrow> Inr (Some (py_str g))))"

definition search :: "pylib \<Rightarrow> command_result \<Rightarrow> string \<Rightarrow> error + string option" where
  "search lib r pattern = search_in lib (stdout (completed_proc r)) pattern"

definition stderr_search :: "pylib \<Rightarrow> command_result \<Rightarrow> string \<Rightarrow> error + string option" where
  "stderr_search lib r pattern = search_in lib (stderr (completed_proc r)) pattern"

definition assert_search :: "pylib \<Rightarrow> command_result \<Rightarrow> string \<Rightarrow> error + string" where
  "assert_search lib r pattern =
     (case search lib r pattern of
        Inl e \<Rightarrow> Inl e
      | Inr None \<Rightarrow> Inl (ADBAssertionError (match_message r pattern))
      | Inr (Some res) \<Rightarrow> Inr res)"

definition json_message :: "command_result \<Rightarrow> string \<Rightarrow> string" where
  "json_message r msg =
     ''FAILED: '' @ sq @ command_str r @ sq @ '' stdout was supposed to contain valid json, but didn''
       @ sq @ ''t.\<newline>STDOUT was:\<newline>'' @ stdout (completed_proc r) @ ''.  Decoding error was: '' @ msg"

text \<open>\<^verbatim>\<open>assert_json\<close> stores the parsed document on the result, which is returned updated.\<close>

definition assert_json :: "pylib \<Rightarrow> command_result \<Rightarrow> error + command_result" where
  "assert_json lib r =
     (case json_loads lib (stdout (completed_proc r)) of
        Inl msg \<Rightarrow> Inl (ADBAssertionError (json_message r msg))
      | Inr doc \<Rightarrow> Inr (r\<lparr>json_data := Some doc\<rparr>))"

subsection \<open>\<^verbatim>\<open>neo_test.py\<close>, class \<^verbatim>\<open>NeoCommandResult\<close>\<close>

text \<open>\<open>doc[key]\<close> for a string key: only a \<^verbatim>\<open>dict\<close> can be indexed so, the last of
  several equal keys of the document being the one kept. The messages of \<^verbatim>\<open>TypeError\<close> are
  those of CPython 3.11.\<close>

definition not_subscriptable :: "string \<Rightarrow> error" where
  "not_subscriptable type_name = TypeError (sq @ type_name @ sq @ '' object is not subscriptable'')"

fun py_getitem :: "json \<Rightarrow> string \<Rightarrow> error + json" where
  "py_getitem (JObj kvs) key =
     (case map_of (rev kvs) key of None \<Rightarrow> Inl (KeyError key) | Some v \<Rightarrow> Inr v)"
| "py_getitem (JArr xs) key = Inl (TypeError ''list indices must be integers or slices, not str'')"
| "py_getitem (JStr s) key =
     Inl (TypeError (''string indices must be integers, not '' @ sq @ ''str'' @ sq))"
| "py_getitem JNull key = Inl (not_subscriptable ''NoneType'')"
| "py_getitem (JBool b) key = Inl (not_subscriptable ''bool'')"
| "py_getitem (JInt i) key = Inl (not_subscriptable ''int'')"
| "py_getitem (JFloat x) key = Inl (not_subscriptable ''float'')"

definition not_success_message :: "command_result \<Rightarrow> string" where
  "not_success_message r =
     ''FAILED: '' @ sq @ command_str r @ sq @ '' didn'' @ sq @ ''t report '' @ sq @ ''Success'' @ sq
       @ '', JSON:\<newline>'' @ stdout (completed_proc r)"

definition assert_mfg_succeeded :: "pylib \<Rightarrow> command_result \<Rightarrow> error + command_result" where
  "assert_mfg_succeeded lib r =
     (case assert_succeeded r of
        Inl e \<Rightarrow> Inl e
      | Inr _ \<Rightarrow>
          (case assert_json lib r of
             Inl e \<Rightarrow> Inl e
           | Inr r' \<Rightarrow>
               (case json_data r' of
                  None \<Rightarrow> Inl (AttributeError ''json_data'')
                | Some doc \<Rightarrow>
                    (case py_getitem doc ''status'' of
                       Inl e \<Rightarrow> Inl e
                     | Inr v \<Rightarrow>
                         if v \<noteq> JStr ''Success''
                         then Inl (ADBAssertionError (not_success_message r'))
                         else Inr r'))))"

section \<open>A reference implementation of the library\<close>

text \<open>
  Concrete inputs need a concrete library. The two functions below implement the part of
  Python's \<open>re\<close> and \<open>json\<close> that the framework's own patterns and the manufacturing
  output use, on text of code points below 256. They serve the examples only.
\<close>

subsection \<open>Regular expressions\<close>

text \<open>
  The fragment: literal characters, \<open>.\<close>, the anchors \<open>^\<close> and \<open>$\<close> in multi-line
  mode, the classes \<open>\w \s \d\<close> and their complements, bracketed sets with ranges,
  capturing groups, alternation and the greedy quantifiers \<open>* + ?\<close>. A pattern outside the
  fragment is refused like one that does not compile.
\<close>

datatype cls = CChar char | CRange char char | CWord | CSpace | CDigit

datatype rx =
    RChar char
  | RAny
  | RSet bool "cls list"
  | RBol
  | REol
  | REps
  | RSeq rx rx
  | RAlt rx rx
  | ROpt rx
  | RStar rx
  | RGroup nat rx

definition py_isword :: "char \<Rightarrow> bool" where
  "py_isword c =
     (let n = (of_char c :: nat) in
      (48 \<le> n \<and> n \<le> 57) \<or> (65 \<le> n \<and> n \<le> 90) \<or> (97 \<le> n \<and> n \<le> 122) \<or> n = 95
      \<or> n = 170 \<or> n = 178 \<or> n = 179 \<or> n = 181 \<or> n = 185 \<or> n = 186
      \<or> (188 \<le> n \<and> n \<le> 190) \<or> (192 \<le> n \<and> n \<le> 214) \<or> (216 \<le> n \<and> n \<le> 246) \<or> 248 \<le> n)"

fun in_cls :: "char \<Rightarrow> cls \<Rightarrow> bool" where
  "in_cls c (CChar d) = (c = d)"
| "in_cls c (CRange a b) = ((of_char a :: nat) \<le> of_char c \<and> (of_char c :: nat) \<le> of_char b)"
| "in_cls c CWord = py_isword c"
| "in_cls c CSpace = py_isspace c"
| "in_cls c CDigit = py_isdigit c"

text \<open>A position in the text: the character before it, the text from it on, and the
  groups captured so far (the latest capture of a group first).\<close>

type_synonym mstate = "char option \<times> string \<times> (nat \<times> string) list"

fun step_char :: "(char \<Rightarrow> bool) \<Rightarrow> mstate \<Rightarrow> mstate list" where
  "step_char ok (p, [], k) = []"
| "step_char ok (p, x # xs, k) = (if ok x then [(Some x, xs, k)] else [])"

text \<open>All the ways a pattern matches from a position, in the order a backtracking matcher
  tries them. The first argument bounds the iterations of a star: an iteration that
  consumes no text is kept, with what it captures, and is the last one.\<close>

fun rmatch :: "nat \<Rightarrow> rx \<Rightarrow> mstate \<Rightarrow> mstate list" where
  "rmatch f (RChar c) st = step_char (\<lambda>x. x = c) st"
| "rmatch f RAny st = step_char (\<lambda>x. x \<noteq> CHR 0x0A) st"
| "rmatch f (RSet neg items) st = step_char (\<lambda>x. (\<exists>i \<in> set items. in_cls x i) \<noteq> neg) st"
| "rmatch f RBol (p, s, k) = (if p = None \<or> p = Some (CHR 0x0A) then [(p, s, k)] else [])"
| "rmatch f REol (p, s, k) = (if s = [] \<or> hd s = CHR 0x0A then [(p, s, k)] else [])"
| "rmatch f REps st = [st]"
| "rmatch f (RSeq a b) st = concat (map (rmatch f b) (rmatch f a st))"
| "rmatch f (RAlt a b) st = rmatch f a st @ rmatch f b st"
| "rmatch f (ROpt a) st = rmatch f a st @ [st]"
| "rmatch 0 (RStar a) st = [st]"
| "rmatch (Suc f) (RStar a) (p, s, k) =
     concat (map (\<lambda>st'. if length (fst (snd st')) < length s then rmatch f (RStar a) st' else [st'])
                 (rmatch f a (p, s, k))) @ [(p, s, k)]"
| "rmatch f (RGroup n a) (p, s, k) =
     map (\<lambda>(p', s', k'). (p', s', (n, take (length s - length s') s) # k')) (rmatch f a (p, s, k))"

text \<open>The leftmost match: each start position in turn, the first way the pattern matches
  there. \<open>n\<close> is the number of groups of the pattern.\<close>

fun search_from :: "rx \<Rightarrow> nat \<Rightarrow> char option \<Rightarrow> string \<Rightarrow> re_match option" where
  "search_from r n p s =
     (case rmatch (Suc (length s)) r (p, s, []) of
        (p', s', k) # rest \<Rightarrow>
          Some (Match (take (length s - length s') s) (map (\<lambda>i. map_of k (Suc i)) [0..<n]))
      | [] \<Rightarrow> (case s of [] \<Rightarrow> None | c # cs \<Rightarrow> search_from r n (Some c) cs))"

text \<open>Reading a pattern. Every function returns what it read, the text left and the
  number of groups opened so far; \<^verbatim>\<open>None\<close> is a pattern that is refused.\<close>

definition escape_item :: "char \<Rightarrow> (bool \<times> cls) option" where
  "escape_item e =
     (if e = CHR ''w'' then Some (False, CWord) else if e = CHR ''W'' then Some (True, CWord)
      else if e = CHR ''s'' then Some (False, CSpace) else if e = CHR ''S'' then Some (True, CSpace)
      else if e = CHR ''d'' then Some (False, CDigit) else if e = CHR ''D'' then Some (True, CDigit)
      else if e = CHR ''n'' then Some (False, CChar (CHR 0x0A))
      else if e = CHR ''t'' then Some (False, CChar (CHR 0x09))
      else if e = CHR ''r'' then Some (False, CChar (CHR 0x0D))
      else if py_isword e \<or> 128 \<le> (of_char e :: nat) then None
      else Some (False, CChar e))"

fun parse_set :: "string \<Rightarrow> (cls list \<times> string) option" where
  "parse_set [] = None"
| "parse_set (c # cs) =
     (if c = CHR '']'' then Some ([], cs)
      else if c = CHR 0x5C then
        (case cs of
           [] \<Rightarrow> None
         | e # es \<Rightarrow>
             (case escape_item e of
                Some (False, i) \<Rightarrow> map_option (\<lambda>(is, r). (i # is, r)) (parse_set es)
              | _ \<Rightarrow> None))
      else
        (case cs of
           d # b # es \<Rightarrow>
             if d = CHR ''-'' \<and> b \<noteq> CHR '']'' then
               (if b = CHR 0x5C \<or> (of_char b :: nat) < of_char c then None
                else map_option (\<lambda>(is, r). (CRange c b # is, r)) (parse_set es))
             else map_option (\<lambda>(is, r). (CChar c # is, r)) (parse_set cs)
         | _ \<Rightarrow> map_option (\<lambda>(is, r). (CChar c # is, r)) (parse_set cs)))"

definition quantified :: "rx \<Rightarrow> string \<Rightarrow> (rx \<times> string) option" where
  "quantified a s =
     (case s of
        [] \<Rightarrow> Some (a, [])
      | q # qs \<Rightarrow>
          if q = CHR ''{'' then None
          else if q = CHR ''*'' \<or> q = CHR ''+'' \<or> q = CHR ''?'' then
            (if qs \<noteq> [] \<and> hd qs \<in> set ''*+?{'' then None
             else Some (if q = CHR ''*'' then RStar a else if q = CHR ''+'' then RSeq a (RStar a) else ROpt a, qs))
          else Some (a, s))"

fun parse_alt :: "nat \<Rightarrow> string \<Rightarrow> nat \<Rightarrow> (rx \<times> string \<times> nat) option"
  and parse_seq :: "nat \<Rightarrow> string \<Rightarrow> nat \<Rightarrow> (rx \<times> string \<times> nat) option"
  and parse_atom :: "nat \<Rightarrow> string \<Rightarrow> nat \<Rightarrow> (rx \<times> string \<times> nat) option" where
  "parse_alt 0 s g = None"
| "parse_alt (Suc f) s g =
     (case parse_seq f s g of
        None \<Rightarrow> None
      | Some (a, r, g') \<Rightarrow>
          (case r of
             c # cs \<Rightarrow>
               if c = CHR ''|'' then
                 (case parse_alt f cs g' of None \<Rightarrow> None | Some (b, r', g'') \<Rightarrow> Some (RAlt a b, r', g''))
               else Some (a, r, g')
           | [] \<Rightarrow> Some (a, r, g')))"
| "parse_seq 0 s g = None"
| "parse_seq (Suc f) s g =
     (case s of
        [] \<Rightarrow> Some (REps, [], g)
      | c # cs \<Rightarrow>
          if c = CHR ''|'' \<or> c = CHR '')'' then Some (REps, s, g)
          else
            (case parse_atom f s g of
               None \<Rightarrow> None
             | Some (a, r, g') \<Rightarrow>
                 (case quantified a r of
                    None \<Rightarrow> None
                  | Some (a', r') \<Rightarrow>
                      (case parse_seq f r' g' of
                         None \<Rightarrow> None
                       | Some (b, r'', g'') \<Rightarrow> Some (if b = REps then a' else RSeq a' b, r'', g'')))))"
| "parse_atom 0 s g = None"
| "parse_atom (Suc f) s g =
     (case s of
        [] \<Rightarrow> None
      | c # cs \<Rightarrow>
          if c = CHR ''('' then
            (if cs \<noteq> [] \<and> hd cs = CHR ''?'' then None
             else
               (case parse_alt f cs (Suc g) of
                  None \<Rightarrow> None
                | Some (a, r, g') \<Rightarrow>
                    (case r of
                       d # ds \<Rightarrow> if d = CHR '')'' then Some (RGroup (Suc g) a, ds, g') else None
                     | [] \<Rightarrow> None)))
          else if c = CHR ''['' then
            (let neg = (cs \<noteq> [] \<and> hd cs = CHR ''^'');
                 body = (if neg then tl cs else cs)
             in if body \<noteq> [] \<and> hd body = CHR '']'' then
                  map_option (\<lambda>(is, r). (RSet neg (CChar (CHR '']'') # is), r, g)) (parse_set (tl body))
                else map_option (\<lambda>(is, r). (RSet neg is, r, g)) (parse_set body))
          else if c = CHR 0x5C then
            (case cs of
               [] \<Rightarrow> None
             | e # es \<Rightarrow>
                 (case escape_item e of
                    None \<Rightarrow> None
                  | Some (neg, CChar x) \<Rightarrow> Some (RChar x, es, g)
                  | Some (neg, i) \<Rightarrow> Some (RSet neg [i], es, g)))
          else if c = CHR ''.'' then Some (RAny, cs, g)
          else if c = CHR ''^'' then Some (RBol, cs, g)
          else if c = CHR ''$'' then Some (REol, cs, g)
          else if c \<in> set ''*+?{'' then None
          else Some (RChar c, cs, g))"

definition compile :: "string \<Rightarrow> (rx \<times> nat) option" where
  "compile pattern =
     (case parse_alt (4 * length pattern + 4) pattern 0 of
        Some (r, [], g) \<Rightarrow> Some (r, g)
      | _ \<Rightarrow> None)"

definition py_re_search :: "string \<Rightarrow> string \<Rightarrow> error + re_match option" where
  "py_re_search pattern text =
     (case compile pattern of
        None \<Rightarrow> Inl (PatternError pattern)
      | Some (r, n) \<Rightarrow> Inr (search_from r n None text))"

subsection \<open>JSON documents\<close>

text \<open>
  The decoder follows Python's: white space is blank, tab, newline and carriage return;
  a number without fraction and exponent is an \<^verbatim>\<open>int\<close>, any other a \<^verbatim>\<open>float\<close>; the
  left value is the message of the \<^verbatim>\<open>JSONDecodeError\<close>. An escape \<open>\uXXXX\<close> of a
  code point from 256 on, which Python reads, is refused: the text of the model cannot hold
  it. An integer of more digits than \<open>int()\<close> converts is refused with a message of the
  decoder, where Python raises \<^verbatim>\<open>ValueError\<close>.
\<close>

definition json_ws :: "char \<Rightarrow> bool" where
  "json_ws c = (c \<in> set [CHR 0x20, CHR 0x09, CHR 0x0A, CHR 0x0D])"

definition skip_ws :: "string \<Rightarrow> string" where
  "skip_ws s = dropWhile json_ws s"

definition hex_digit :: "char \<Rightarrow> nat option" where
  "hex_digit c =
     (let n = (of_char c :: nat) in
      if 48 \<le> n \<and> n \<le> 57 then Some (n - 48)
      else if 65 \<le> n \<and> n \<le> 70 then Some (n - 55)
      else if 97 \<le> n \<and> n \<le> 102 then Some (n - 87)
      else None)"

definition hex4 :: "string \<Rightarrow> nat option" where
  "hex4 s =
     (case map hex_digit s of
        [Some a, Some b, Some c, Some d] \<Rightarrow> Some (((a * 16 + b) * 16 + c) * 16 + d)
      | _ \<Rightarrow> None)"

definition json_escape :: "char \<Rightarrow> char option" where
  "json_escape e =
     (if e = CHR 0x22 \<or> e = CHR 0x5C \<or> e = CHR ''/'' then Some e
      else if e = CHR ''b'' then Some (CHR 0x08)
      else if e = CHR ''f'' then Some (CHR 0x0C)
      else if e = CHR ''n'' then Some (CHR 0x0A)
      else if e = CHR ''r'' then Some (CHR 0x0D)
      else if e = CHR ''t'' then Some (CHR 0x09)
      else None)"

text \<open>The text of a string after its opening quote, with what follows the closing one.\<close>

fun scan_string :: "string \<Rightarrow> string \<Rightarrow> string + (string \<times> string)" where
  "scan_string acc [] = Inl ''Unterminated string starting at''"
| "scan_string acc (c # cs) =
     (if c = CHR 0x22 then Inr (rev acc, cs)
      else if c = CHR 0x5C then
        (case cs of
           [] \<Rightarrow> Inl ''Unterminated string starting at''
         | e # es \<Rightarrow>
             if e = CHR ''u'' then
               (case hex4 (take 4 es) of
                  None \<Rightarrow> Inl (''Invalid '' @ [CHR 0x5C] @ ''uXXXX escape'')
                | Some n \<Rightarrow>
                    if n < 256 then scan_string (char_of n # acc) (drop 4 es)
                    else Inl (''Invalid '' @ [CHR 0x5C] @ ''uXXXX escape''))
             else
               (case json_escape e of
                  None \<Rightarrow> Inl (''Invalid '' @ [CHR 0x5C] @ ''escape'')
                | Some x \<Rightarrow> scan_string (x # acc) es))
      else if (of_char c :: nat) < 32 then Inl ''Invalid control character at''
      else scan_string (c # acc) cs)"

text \<open>A number: \<open>-?(0|[1-9]\d*)(\.\d+)?([eE][-+]?\d+)?\<close>, as long as it goes.\<close>

definition scan_number :: "string \<Rightarrow> (json \<times> string) option" where
  "scan_number s =
     (let (sign, s1) = (if s \<noteq> [] \<and> hd s = CHR ''-'' then (''-'', tl s) else ('''', s));
          ds = (if s1 \<noteq> [] \<and> hd s1 = CHR ''0'' then ''0'' else takeWhile py_isdigit s1);
          s2 = drop (length ds) s1;
          fd = (if s2 \<noteq> [] \<and> hd s2 = CHR ''.'' then takeWhile py_isdigit (tl s2) else '''');
          frac = (if fd = [] then '''' else CHR ''.'' # fd);
          s3 = drop (length frac) s2;
          es = (if s3 \<noteq> [] \<and> (hd s3 = CHR ''e'' \<or> hd s3 = CHR ''E'') then
                  (let t = tl s3;
                       sg = (if t \<noteq> [] \<and> (hd t = CHR ''-'' \<or> hd t = CHR ''+'') then [hd t] else '''');
                       xd = takeWhile py_isdigit (drop (length sg) t)
                   in if xd = [] then '''' else hd s3 # sg @ xd)
                else '''');
          s4 = drop (length es) s3
      in if ds = [] then None
         else if frac = [] \<and> es = [] then
           (case py_int (sign @ ds) of Inr i \<Rightarrow> Some (JInt i, s4) | Inl e \<Rightarrow> None)
         else Some (JFloat (sign @ ds @ frac @ es), s4))"

definition literal :: "string \<Rightarrow> json \<Rightarrow> string \<Rightarrow> (json \<times> string) option" where
  "literal word v s = (if take (length word) s = word then Some (v, drop (length word) s) else None)"

definition scan_atom :: "string \<Rightarrow> string + (json \<times> string)" where
  "scan_atom s =
     (case literal ''null'' JNull s of Some r \<Rightarrow> Inr r | None \<Rightarrow>
      case literal ''true'' (JBool True) s of Some r \<Rightarrow> Inr r | None \<Rightarrow>
      case literal ''false'' (JBool False) s of Some r \<Rightarrow> Inr r | None \<Rightarrow>
      case scan_number s of Some r \<Rightarrow> Inr r | None \<Rightarrow>
      case literal ''NaN'' (JFloat ''NaN'') s of Some r \<Rightarrow> Inr r | None \<Rightarrow>
      case literal ''Infinity'' (JFloat ''Infinity'') s of Some r \<Rightarrow> Inr r | None \<Rightarrow>
      case literal ''-Infinity'' (JFloat ''-Infinity'') s of Some r \<Rightarrow> Inr r | None \<Rightarrow>
      Inl ''Expecting value'')"

definition comma_message :: string where
  "comma_message = ''Expecting '' @ sq @ '','' @ sq @ '' delimiter''"

definition colon_message :: string where
  "colon_message = ''Expecting '' @ sq @ '':'' @ sq @ '' delimiter''"

definition name_message :: string where
  "name_message = ''Expecting property name enclosed in double quotes''"

text \<open>A value, the elements of an array after its bracket and the members of an object
  after its brace. The first argument bounds the calls; twice the length of the
  text is enough.\<close>

fun scan_once :: "nat \<Rightarrow> string \<Rightarrow> string + (json \<times> string)"
  and scan_elems :: "nat \<Rightarrow> json list \<Rightarrow> string \<Rightarrow> string + (json \<times> string)"
  and scan_members :: "nat \<Rightarrow> (string \<times> json) list \<Rightarrow> string \<Rightarrow> string + (json \<times> string)" where
  "scan_once 0 s = Inl ''Expecting value''"
| "scan_once (Suc f) s =
     (case s of
        [] \<Rightarrow> Inl ''Expecting value''
      | c # cs \<Rightarrow>
          if c = CHR 0x22 then
            (case scan_string [] cs of Inl e \<Rightarrow> Inl e | Inr (str, r) \<Rightarrow> Inr (JStr str, r))
          else if c = CHR ''{'' then
            (case skip_ws cs of
               [] \<Rightarrow> Inl name_message
             | d # ds \<Rightarrow>
                 if d = CHR ''}'' then Inr (JObj [], ds)
                 else if d = CHR 0x22 then scan_members f [] ds
                 else Inl name_message)
          else if c = CHR ''['' then
            (case skip_ws cs of
               [] \<Rightarrow> Inl ''Expecting value''
             | d # ds \<Rightarrow> if d = CHR '']'' then Inr (JArr [], ds) else scan_elems f [] (d # ds))
          else scan_atom s)"
| "scan_elems 0 acc s = Inl ''Expecting value''"
| "scan_elems (Suc f) acc s =
     (case scan_once f s of
        Inl e \<Rightarrow> Inl e
      | Inr (v, r) \<Rightarrow>
          (case skip_ws r of
             [] \<Rightarrow> Inl comma_message
           | d # ds \<Rightarrow>
               if d = CHR '']'' then Inr (JArr (rev (v # acc)), ds)
               else if d = CHR '','' then scan_elems f (v # acc) (skip_ws ds)
               else Inl comma_message))"
| "scan_members 0 acc s = Inl ''Expecting value''"
| "scan_members (Suc f) acc s =
     (case scan_string [] s of
        Inl e \<Rightarrow> Inl e
      | Inr (key, r) \<Rightarrow>
          (case skip_ws r of
             [] \<Rightarrow> Inl colon_message
           | c # cs \<Rightarrow>
               if c \<noteq> CHR '':'' then Inl colon_message
               else
                 (case scan_once f (skip_ws cs) of
                    Inl e \<Rightarrow> Inl e
                  | Inr (v, r') \<Rightarrow>
                      (case skip_ws r' of
                         [] \<Rightarrow> Inl comma_message
                       | d # ds \<Rightarrow>
                           if d = CHR ''}'' then Inr (JObj (rev ((key, v) # acc)), ds)
                           else if d = CHR '','' then
                             (case skip_ws ds of
                                [] \<Rightarrow> Inl name_message
                              | q # qs \<Rightarrow>
                                  if q = CHR 0x22 then scan_members f ((key, v) # acc) qs
                                  else Inl name_message)
                           else Inl comma_message))))"

definition py_json_loads :: "string \<Rightarrow> string + json" where
  "py_json_loads s =
     (case scan_once (2 * length s + 2) (skip_ws s) of
        Inl e \<Rightarrow> Inl e
      | Inr (doc, r) \<Rightarrow> if skip_ws r = [] then Inr doc else Inl ''Extra data'')"

definition python :: pylib where
  "python = \<lparr>re_search = py_re_search, json_loads = py_json_loads\<rparr>"

section \<open>Sessions (\<^verbatim>\<open>adb_test.py\<close>, class \<^verbatim>\<open>ADBSession\<close>)\<close>

text \<open>
  A method of a session reads and writes the session's attributes and runs commands. It is
  modelled as a function from the session and the commands run so far to its result, the
  session and the commands run after it. The commands run are kept as the list of their
  argument vectors, oldest first: a method issues no command exactly when it leaves the
  list as it was. An exception leaves the attributes written before it in place, as in
  Python.
\<close>

type_synonym trace = "string list list"

type_synonym ('s, 'a) action = "'s \<times> trace \<Rightarrow> (error + 'a) \<times> 's \<times> trace"

definition returnM :: "'a \<Rightarrow> ('s, 'a) action" where
  "returnM x = (\<lambda>st. (Inr x, st))"

definition raiseM :: "error \<Rightarrow> ('s, 'a) action" where
  "raiseM e = (\<lambda>st. (Inl e, st))"

definition liftE :: "error + 'a \<Rightarrow> ('s, 'a) action" where
  "liftE r = (\<lambda>st. (r, st))"

definition bindM :: "('s, 'a) action \<Rightarrow> ('a \<Rightarrow> ('s, 'b) action) \<Rightarrow> ('s, 'b) action" where
  "bindM m f = (\<lambda>st. case m st of (Inl e, st') \<Rightarrow> (Inl e, st') | (Inr x, st') \<Rightarrow> f x st')"

definition thenM :: "('s, 'a) action \<Rightarrow> ('s, 'b) action \<Rightarrow> ('s, 'b) action" where
  "thenM m n = bindM m (\<lambda>_. n)"

definition getM :: "('s \<Rightarrow> 'a) \<Rightarrow> ('s, 'a) action" where
  "getM field = (\<lambda>(s, t). (Inr (field s), (s, t)))"

definition setM :: "('s \<Rightarrow> 's) \<Rightarrow> ('s, unit) action" where
  "setM upd = (\<lambda>(s, t). (Inr (), (upd s, t)))"

text \<open>\<^verbatim>\<open>try: m except C: h\<close>, the class \<open>C\<close> given by its test.\<close>

definition catchM :: "('s, 'a) action \<Rightarrow> (error \<Rightarrow> bool) \<Rightarrow> (error \<Rightarrow> ('s, 'a) action) \<Rightarrow> ('s, 'a) action" where
  "catchM m caught h =
     (\<lambda>st. case m st of
             (Inl e, st') \<Rightarrow> if caught e then h e st' else (Inl e, st')
           | (Inr x, st') \<Rightarrow> (Inr x, st'))"

text \<open>
  The host: the two tools \<^verbatim>\<open>find_platform_utils\<close> has found, and \<open>subprocess.run\<close>,
  which answers a command with a completed process or, when the time is up, with none
  (\<^verbatim>\<open>TimeoutExpired\<close>). What the device answers may depend on everything run before.
\<close>

record host =
  ADB_PATH :: string
  FASTBOOT_PATH :: string
  subprocess_run :: "trace \<Rightarrow> string list \<Rightarrow> nat \<Rightarrow> completed_proc option"

record adb_session =
  device_name :: "string option"
  device_serial :: "string option"
  root :: bool
  remounted :: bool
  echo_commands :: bool

definition ADBSession :: adb_session where
  "ADBSession = \<lparr>device_name = None, device_serial = None, root = False, remounted = False,
     echo_commands = False\<rparr>"

text \<open>\<^verbatim>\<open>run_cli_command\<close>, and the module's \<^verbatim>\<open>run_command\<close> behind \<^verbatim>\<open>run_adb_command\<close>: both
  run the command and wrap what it answers.\<close>

definition run_cli_command :: "host \<Rightarrow> string list \<Rightarrow> nat \<Rightarrow> ('s, command_result) action" where
  "run_cli_command h cmd timeout_sec =
     (\<lambda>(s, t). case subprocess_run h t cmd timeout_sec of
                  None \<Rightarrow> (Inl (TimeoutExpired cmd), (s, t @ [cmd]))
                | Some cp \<Rightarrow> (Inr (CommandResult cmd cp), (s, t @ [cmd])))"

definition run_adb_command :: "host \<Rightarrow> string list \<Rightarrow> nat \<Rightarrow> ('s, command_result) action" where
  "run_adb_command h cmd timeout_sec = run_cli_command h ([ADB_PATH h] @ cmd) timeout_sec"

text \<open>A session without a serial number has \<^verbatim>\<open>None\<close> in the argument vector, which
  \<open>subprocess.run\<close> refuses before anything runs.\<close>

definition with_serial :: "string list \<Rightarrow> ('x adb_session_scheme, string list) action" where
  "with_serial cmd =
     bindM (getM device_serial) (\<lambda>serial.
       case serial of
         None \<Rightarrow> raiseM (TypeError ''expected str, bytes or os.PathLike object, not NoneType'')
       | Some sn \<Rightarrow> returnM ([''-s'', sn] @ cmd))"

definition run_command :: "host \<Rightarrow> string list \<Rightarrow> nat \<Rightarrow> ('x adb_session_scheme, command_result) action" where
  "run_command h cmd timeout_sec =
     bindM (with_serial cmd) (\<lambda>cmd'. run_cli_command h ([ADB_PATH h] @ cmd') timeout_sec)"

definition run_fastboot_command :: "host \<Rightarrow> string list \<Rightarrow> nat \<Rightarrow> ('x adb_session_scheme, command_result) action" where
  "run_fastboot_command h cmd timeout_sec =
     bindM (with_serial cmd) (\<lambda>cmd'. run_cli_command h ([FASTBOOT_PATH h] @ cmd') timeout_sec)"

definition run_shell_command :: "host \<Rightarrow> string list \<Rightarrow> nat \<Rightarrow> ('x adb_session_scheme, command_result) action" where
  "run_shell_command h cmd timeout_sec = run_command h ([''shell''] @ cmd) timeout_sec"

definition assert_succeeded_cmd :: "host \<Rightarrow> string list \<Rightarrow> nat \<Rightarrow> ('x adb_session_scheme, unit) action" where
  "assert_succeeded_cmd h cmd timeout_sec =
     bindM (run_shell_command h cmd timeout_sec) (\<lambda>r. liftE (assert_succeeded r))"

definition is_root :: "host \<Rightarrow> ('x adb_session_scheme, bool) action" where
  "is_root h =
     bindM (run_shell_command h [''id'', ''-u''] 10) (\<lambda>result.
     bindM (liftE (assert_succeeded result)) (\<lambda>_.
     bindM (liftE (assert_int result)) (\<lambda>uid.
     returnM (uid = 0))))"

text \<open>\<^verbatim>\<open>on_root\<close> is overridden by the subclass, so \<^verbatim>\<open>assert_root\<close> takes the method to
  call. The one of \<^verbatim>\<open>ADBSession\<close> does nothing.\<close>

definition on_root :: "('x adb_session_scheme, unit) action" where
  "on_root = returnM ()"

definition assert_root ::
  "('x adb_session_scheme, unit) action \<Rightarrow> host \<Rightarrow> ('x adb_session_scheme, unit) action" where
  "assert_root self_on_root h =
     bindM (getM root) (\<lambda>is_rooted.
       if is_rooted then returnM ()
       else
         bindM (run_command h [''root''] 10) (\<lambda>result.
         bindM (liftE (assert_succeeded result)) (\<lambda>_.
         bindM (setM (\<lambda>s. s\<lparr>root := True\<rparr>)) (\<lambda>_.
         self_on_root))))"

definition is_remounted :: "pylib \<Rightarrow> host \<Rightarrow> ('x adb_session_scheme, bool) action" where
  "is_remounted lib h =
     bindM (run_shell_command h [''mount''] 10) (\<lambda>result.
     bindM (liftE (assert_succeeded result)) (\<lambda>_.
     liftE (contains lib result ''overlay on /system type overlay'')))"

definition unroot :: "host \<Rightarrow> ('x adb_session_scheme, unit) action" where
  "unroot h =
     bindM (run_command h [''unroot''] 10) (\<lambda>result.
     bindM (liftE (assert_succeeded result)) (\<lambda>_.
     setM (\<lambda>s. s\<lparr>root := False\<rparr>)))"

definition assert_remount :: "host \<Rightarrow> ('x adb_session_scheme, unit) action" where
  "assert_remount h =
     bindM (getM remounted) (\<lambda>is_remounted.
       if is_remounted then returnM ()
       else
         bindM (run_command h [''remount''] 10) (\<lambda>result.
         bindM (liftE (assert_succeeded result)) (\<lambda>_.
         setM (\<lambda>s. s\<lparr>remounted := True\<rparr>))))"

definition assert_log_shell_command :: "host \<Rightarrow> string list \<Rightarrow> ('x adb_session_scheme, unit) action" where
  "assert_log_shell_command h cmd =
     bindM (run_shell_command h cmd 10) (\<lambda>r.
     bindM (liftE (assert_string r)) (\<lambda>cmd_output.
     returnM ()))"

definition assert_string_cmd :: "host \<Rightarrow> string list \<Rightarrow> ('x adb_session_scheme, string) action" where
  "assert_string_cmd h cmd =
     bindM (run_shell_command h cmd 10) (\<lambda>r. liftE (assert_string r))"

definition assert_file_int :: "host \<Rightarrow> string \<Rightarrow> ('x adb_session_scheme, int) action" where
  "assert_file_int h filename_str =
     bindM (run_shell_command h [''cat'', filename_str] 10) (\<lambda>r. liftE (assert_int r))"

definition assert_get_prop :: "host \<Rightarrow> string \<Rightarrow> ('x adb_session_scheme, string) action" where
  "assert_get_prop h prop_name = assert_string_cmd h [''getprop'', prop_name]"

definition assert_set_prop :: "host \<Rightarrow> string \<Rightarrow> string \<Rightarrow> ('x adb_session_scheme, unit) action" where
  "assert_set_prop h prop_name prop_value = assert_succeeded_cmd h [''setprop'', prop_name, prop_value] 10"

definition assert_log_prop :: "host \<Rightarrow> string \<Rightarrow> ('x adb_session_scheme, unit) action" where
  "assert_log_prop h prop_name =
     bindM (assert_get_prop h prop_name) (\<lambda>prop_value. returnM ())"

definition is_selinux_enforcing :: "host \<Rightarrow> ('x adb_session_scheme, bool) action" where
  "is_selinux_enforcing h =
     bindM (assert_string_cmd h [''getenforce'']) (\<lambda>mode.
     returnM (if mode = ''Enforcing'' then True else False))"

definition assert_set_selinux_enforcing ::
  "('x adb_session_scheme, unit) action \<Rightarrow> host \<Rightarrow> bool \<Rightarrow> ('x adb_session_scheme, unit) action" where
  "assert_set_selinux_enforcing self_on_root h enforcing =
     bindM (is_selinux_enforcing h) (\<lambda>current.
       if current = enforcing then returnM ()
       else
         bindM (assert_root self_on_root h) (\<lambda>_.
         assert_succeeded_cmd h [''setenforce'', if enforcing then ''1'' else ''0''] 10))"

definition assert_ctl_stop :: "host \<Rightarrow> string \<Rightarrow> ('x adb_session_scheme, unit) action" where
  "assert_ctl_stop h service = assert_set_prop h ''ctl.stop'' service"

definition assert_ctl_start :: "host \<Rightarrow> string \<Rightarrow> ('x adb_session_scheme, unit) action" where
  "assert_ctl_start h service = assert_set_prop h ''ctl.start'' service"

text \<open>\<^verbatim>\<open>refresh_device_state\<close> of \<^verbatim>\<open>ADBSession\<close>; the subclass overrides it, so
  \<^verbatim>\<open>bind_serial\<close> takes the method to call.\<close>

definition refresh_device_state :: "pylib \<Rightarrow> host \<Rightarrow> ('x adb_session_scheme, unit) action" where
  "refresh_device_state lib h =
     bindM (is_root h) (\<lambda>v. 
     bindM (setM (\<lambda>s. s\<lparr>root := v\<rparr>)) (\<lambda>_.
     bindM (is_remounted lib h) (\<lambda>v.
     bindM (setM (\<lambda>s. s\<lparr>remounted := v\<rparr>)) (\<lambda>_.
     bindM (assert_get_prop h ''ro.product.device'') (\<lambda>v.
     setM (\<lambda>s. s\<lparr>device_name := Some v\<rparr>))))))"

definition bind_serial ::
  "('x adb_session_scheme, unit) action \<Rightarrow> string \<Rightarrow> ('x adb_session_scheme, unit) action" where
  "bind_serial self_refresh_device_state serial =
     bindM (setM (\<lambda>s. s\<lparr>device_serial := Some serial\<rparr>)) (\<lambda>_. self_refresh_device_state)"

definition devices_header :: string where
  "devices_header = ''^List of devices attached\<newline>''"

definition device_line :: string where
  "device_line = ''^('' @ [CHR 0x5C] @ ''w+)'' @ [CHR 0x5C] @ ''s+device''"

definition no_devices_message :: string where
  "no_devices_message = sq @ ''adb devices'' @ sq @ '' shows no connected devices available to run tests''"

definition bind_with_first_device ::
  "('x adb_session_scheme, unit) action \<Rightarrow> pylib \<Rightarrow> host \<Rightarrow> ('x adb_session_scheme, unit) action" where
  "bind_with_first_device self_refresh_device_state lib h =
     bindM (run_adb_command h [''devices''] 10) (\<lambda>result.
     bindM (liftE (assert_succeeded result)) (\<lambda>_.
     bindM (liftE (assert_contains lib result devices_header)) (\<lambda>_.
     bindM (liftE (search lib result device_line)) (\<lambda>found.
       case found of
         None \<Rightarrow> raiseM (ADBAssertionError no_devices_message)
       | Some serial \<Rightarrow> bind_serial self_refresh_device_state serial))))"

text \<open>The binding done by \<^verbatim>\<open>ADBTestSession.__init__\<close>, by serial number or with the first
  device.\<close>

definition bind_session ::
  "('x adb_session_scheme, unit) action \<Rightarrow> pylib \<Rightarrow> host \<Rightarrow> string option
     \<Rightarrow> ('x adb_session_scheme, unit) action" where
  "bind_session self_refresh_device_state lib h serial =
     (case serial of
        None \<Rightarrow> bind_with_first_device self_refresh_device_state lib h
      | Some sn \<Rightarrow> bind_serial self_refresh_device_state sn)"

section \<open>Neo sessions (\<^verbatim>\<open>neo_test.py\<close>, class \<^verbatim>\<open>NeoADBSession\<close>)\<close>

text \<open>The methods \<^verbatim>\<open>assert_succeeded\<close> and \<^verbatim>\<open>assert_string\<close> of a session carry the
  suffix \<open>_cmd\<close> above, the plain names being those of a command result.\<close>

datatype DeviceType = HAMMERHEAD | GREATWHITE

datatype BoardType =
    SN_UNKNOWN
  | HN_UNKNOWN
  | SN_DEV0
  | SN_P1
  | SN_DEV0_1
  | SN_RESERVED
  | SN_EVT1
  | SN_EVT1_1
  | HN_CONFIG_DEV0
  | HN_CONFIG_DEV0_1
  | HN_PREP1

text \<open>\<open>DeviceType(value)\<close> and \<open>BoardType(value)\<close>: looking an enumeration up by value
  raises \<^verbatim>\<open>ValueError\<close> for a value that no member has.\<close>

definition DeviceType_of :: "string option \<Rightarrow> error + DeviceType" where
  "DeviceType_of v =
     (if v = Some ''hammerhead'' then Inr HAMMERHEAD
      else if v = Some ''greatwhite'' then Inr GREATWHITE
      else Inl (ValueError ((case v of None \<Rightarrow> ''None'' | Some n \<Rightarrow> sq @ n @ sq)
                              @ '' is not a valid DeviceType'')))"

definition BoardType_table :: "(int \<times> BoardType) list" where
  "BoardType_table =
     [(0, SN_UNKNOWN), (1, HN_UNKNOWN), (160, SN_DEV0), (161, SN_P1), (162, SN_DEV0_1),
      (163, SN_RESERVED), (164, SN_EVT1), (165, SN_EVT1_1), (176, HN_CONFIG_DEV0),
      (177, HN_CONFIG_DEV0_1), (178, HN_PREP1)]"

definition BoardType_of :: "int \<Rightarrow> error + BoardType" where
  "BoardType_of v =
     (case map_of BoardType_table v of
        Some b \<Rightarrow> Inr b
      | None \<Rightarrow> Inl (ValueError (py_str_int v @ '' is not a valid BoardType'')))"

text \<open>\<^verbatim>\<open>device_type\<close> and \<^verbatim>\<open>board_type\<close> are declared without a value: the attributes
  exist once they have been assigned.\<close>

record neo_session = adb_session +
  factory_mode :: bool
  device_type :: "DeviceType option"
  board_type :: "BoardType option"
  have_oem_device_info :: bool
  vendor_mcs_enabled :: bool

definition NeoADBSession :: neo_session where
  "NeoADBSession = \<lparr>device_name = None, device_serial = None, root = False, remounted = False,
     echo_commands = False, factory_mode = False, device_type = None, board_type = None,
     have_oem_device_info = False, vendor_mcs_enabled = True\<rparr>"

definition is_factory_mode :: "pylib \<Rightarrow> host \<Rightarrow> (neo_session, bool) action" where
  "is_factory_mode lib h =
     bindM (getM root) (\<lambda>is_rooted.
       if \<not> is_rooted then returnM False
       else
         bindM (run_shell_command h [''cat'', ''/proc/cmdline''] 10) (\<lambda>result.
         bindM (liftE (assert_succeeded result)) (\<lambda>_.
         liftE (contains lib result ''androidboot.factorytest=1''))))"

definition neo_on_root :: "pylib \<Rightarrow> host \<Rightarrow> (neo_session, unit) action" where
  "neo_on_root lib h =
     bindM on_root (\<lambda>_.
     bindM (is_factory_mode lib h) (\<lambda>v.
     setM (\<lambda>s. s\<lparr>factory_mode := v\<rparr>)))"

definition golden_bin :: string where
  "golden_bin = ''/vendor/firmware_mnt/image/kiwi/bdwlan.elf''"

definition bt_file :: string where
  "bt_file = ''/sys/devices/soc0/platform_subtype_id''"

text \<open>The message of the handler: \<^verbatim>\<open>board_id\<close> is set to 0 before the \<^verbatim>\<open>try\<close> and never
  again.\<close>

definition unknown_configuration_message :: "string option \<Rightarrow> string" where
  "unknown_configuration_message name =
     ''FAILED: '' @ sq @ py_str name @ sq @ '' or platform_subtype_id='' @ py_str_int 0
       @ '' doesn'' @ sq @ ''t map to a known configuration: update test infra''"

text \<open>The \<^verbatim>\<open>try\<close> statement that ends \<^verbatim>\<open>refresh_device_state\<close> of \<^verbatim>\<open>NeoADBSession\<close>: it
  resolves the identity of the device, and its handler is entered for a \<^verbatim>\<open>KeyError\<close>
  only.\<close>

definition resolve_identity :: "host \<Rightarrow> (neo_session, unit) action" where
  "resolve_identity h =
     catchM
       (bindM (getM device_name) (\<lambda>name.
        bindM (liftE (DeviceType_of name)) (\<lambda>dt.
        bindM (setM (\<lambda>s. s\<lparr>device_type := Some dt\<rparr>)) (\<lambda>_.
        bindM (getM root) (\<lambda>is_rooted.
          if is_rooted then
            bindM (assert_file_int h bt_file) (\<lambda>v.
            bindM (liftE (BoardType_of v)) (\<lambda>bt.
            setM (\<lambda>s. s\<lparr>board_type := Some bt\<rparr>)))
          else
            setM (\<lambda>s. s\<lparr>board_type := Some (if dt = HAMMERHEAD then SN_UNKNOWN else HN_UNKNOWN)\<rparr>))))))
       is_KeyError
       (\<lambda>e. bindM (getM device_name) (\<lambda>name.
              raiseM (ADBAssertionError (unknown_configuration_message name))))"

text \<open>\<^verbatim>\<open>refresh_device_state\<close> of \<^verbatim>\<open>NeoADBSession\<close>.\<close>

definition neo_refresh_device_state :: "pylib \<Rightarrow> host \<Rightarrow> (neo_session, unit) action" where
  "neo_refresh_device_state lib h =
     bindM (refresh_device_state lib h) (\<lambda>_.
     bindM (is_factory_mode lib h) (\<lambda>v.
     bindM (setM (\<lambda>s. s\<lparr>factory_mode := v\<rparr>)) (\<lambda>_.
     bindM (assert_log_prop h ''ro.product.device'') (\<lambda>_.
     bindM (assert_log_prop h ''ro.build.flavor'') (\<lambda>_.
     bindM (assert_log_prop h ''ro.build.fingerprint'') (\<lambda>_.
     bindM (assert_log_shell_command h [''uname'', ''-a'']) (\<lambda>_.
     bindM (getM root) (\<lambda>is_rooted.
     bindM (if is_rooted then
              bindM (assert_log_shell_command h [''sha1sum'', golden_bin]) (\<lambda>_.
              assert_log_shell_command h [''stat'', ''-c'', ''%s'', golden_bin])
            else returnM ()) (\<lambda>_.
     resolve_identity h)))))))))"

definition neo_assert_root :: "pylib \<Rightarrow> host \<Rightarrow> (neo_session, unit) action" where
  "neo_assert_root lib h = assert_root (neo_on_root lib h) h"

definition assert_disable_vendor_MCS :: "pylib \<Rightarrow> host \<Rightarrow> (neo_session, unit) action" where
  "assert_disable_vendor_MCS lib h =
     bindM (getM vendor_mcs_enabled) (\<lambda>enabled.
       if \<not> enabled then returnM ()
       else
         bindM (assert_root (neo_on_root lib h) h) (\<lambda>_.
         bindM (assert_set_selinux_enforcing (neo_on_root lib h) h True) (\<lambda>_.
         bindM (assert_ctl_stop h ''captureengineservice'') (\<lambda>_.
         bindM (assert_ctl_stop h ''vendor.camera-provider-2-7'') (\<lambda>_.
         setM (\<lambda>s. s\<lparr>vendor_mcs_enabled := False\<rparr>))))))"

definition assert_enable_vendor_MCS :: "pylib \<Rightarrow> host \<Rightarrow> (neo_session, unit) action" where
  "assert_enable_vendor_MCS lib h =
     bindM (assert_root (neo_on_root lib h) h) (\<lambda>_.
     bindM (assert_set_selinux_enforcing (neo_on_root lib h) h True) (\<lambda>_.
     bindM (assert_ctl_start h ''captureengineservice'') (\<lambda>_.
     bindM (assert_ctl_start h ''vendor.camera-provider-2-7'') (\<lambda>_.
     setM (\<lambda>s. s\<lparr>vendor_mcs_enabled := True\<rparr>)))))"

text \<open>A device for the examples: it answers every command at once with exit code 0 and the
  text the table has for the command (the words after the tool and the serial number), or
  with no text.\<close>

fun device_words :: "string list \<Rightarrow> string list" where
  "device_words (tool # a # b # rest) = (if a = ''-s'' then rest else a # b # rest)"
| "device_words (tool # rest) = rest"
| "device_words [] = []"

definition scripted :: "(string list \<times> string) list \<Rightarrow> trace \<Rightarrow> string list \<Rightarrow> nat \<Rightarrow> completed_proc option" where
  "scripted table t cmd timeout_sec =
     Some \<lparr>returncode = 0,
           stdout = (case map_of table (device_words cmd) of None \<Rightarrow> '''' | Some out \<Rightarrow> out),
           stderr = ''''\<rparr>"

definition bench :: "(string list \<times> string) list \<Rightarrow> host" where
  "bench table = \<lparr>ADB_PATH = ''adb'', FASTBOOT_PATH = ''fastboot'', subprocess_run = scripted table\<rparr>"

text \<open>A Neo device on the bench: what \<open>adb devices\<close> lists, the user id of the shell, the
  name of the product, the kernel command line and the board revision are given; the
  other commands of a refresh get a fixed line.\<close>

definition neo_device :: "string \<Rightarrow> string \<Rightarrow> string \<Rightarrow> string \<Rightarrow> string \<Rightarrow> host" where
  "neo_device listing uid name cmdline board =
     bench [([''devices''], listing),
            ([''root''], ''restarting adbd as root\<newline>''),
            ([''shell'', ''id'', ''-u''], uid),
            ([''shell'', ''mount''], ''overlay on /system type overlay (ro,seclabel,noatime)\<newline>''),
            ([''shell'', ''getprop'', ''ro.product.device''], name),
            ([''shell'', ''cat'', ''/proc/cmdline''], cmdline),
            ([''shell'', ''getprop'', ''ro.build.flavor''], ''neo-userdebug\<newline>''),
            ([''shell'', ''getprop'', ''ro.build.fingerprint''], ''meta/neo/neo:13/TQ3A/eng:userdebug\<newline>''),
            ([''shell'', ''uname'', ''-a''], ''Linux localhost 5.10.66 aarch64\<newline>''),
            ([''shell'', ''sha1sum'', golden_bin], ''da39a3ee5e6b4b0d  '' @ golden_bin @ ''\<newline>''),
            ([''shell'', ''stat'', ''-c'', ''%s'', golden_bin], ''4096\<newline>''),
            ([''shell'', ''cat'', bt_file], board),
            ([''shell'', ''getenforce''], ''Enforcing\<newline>'')]"

text \<open>Three such devices with the serial number N1: a Hammerhead of an unknown board
  revision 999 whose shell is root, an EVT1 Hammerhead whose shell is not, and a host with
  no device attached. A second device N2 is listed after the first.\<close>

definition two_devices :: string where
  "two_devices = ''List of devices attached\<newline>N1'' @ [CHR 0x09] @ ''device\<newline>N2'' @ [CHR 0x09]
     @ ''device\<newline>\<newline>''"

definition unknown_board_device :: host where
  "unknown_board_device =
     neo_device two_devices ''0\<newline>'' ''hammerhead\<newline>''
       ''console=ttyMSM0 androidboot.factorytest=1 quiet\<newline>'' ''999\<newline>''"

definition evt1_device :: host where
  "evt1_device =
     neo_device two_devices ''2000\<newline>'' ''hammerhead\<newline>''
       ''console=ttyMSM0 androidboot.factorytest=1 quiet\<newline>'' ''164\<newline>''"

definition no_device :: host where
  "no_device =
     neo_device ''List of devices attached\<newline>\<newline>'' ''2000\<newline>'' ''hammerhead\<newline>''
       ''console=ttyMSM0 quiet\<newline>'' ''164\<newline>''"

text \<open>How often a list of commands escalates privilege (\<open>adb -s <serial> root\<close>).\<close>

definition escalations :: "trace \<Rightarrow> nat" where
  "escalations t = length (filter (\<lambda>cmd. device_words cmd = [''root'']) t)"

section \<open>What a method leaves alone\<close>

text \<open>Two properties of a method, used to carry facts along a sequence of calls: it only
  adds to the commands run, and its session stays related to the one it started from.\<close>

definition extends :: "('s, 'a) action \<Rightarrow> bool" where
  "extends m = (\<forall>s t. \<exists>u. snd (snd (m (s, t))) = t @ u)"

definition frames :: "('s \<Rightarrow> 's \<Rightarrow> bool) \<Rightarrow> ('s, 'a) action \<Rightarrow> bool" where
  "frames F m = (\<forall>s t. F s (fst (snd (m (s, t)))))"

definition frames_failure :: "('s \<Rightarrow> 's \<Rightarrow> bool) \<Rightarrow> ('s, 'a) action \<Rightarrow> bool" where
  "frames_failure F m = (\<forall>s t. isl (fst (m (s, t))) \<longrightarrow> F s (fst (snd (m (s, t)))))"

text \<open>The attributes that no part of a refresh writes but its last assignment.\<close>

definition identity_kept :: "neo_session \<Rightarrow> neo_session \<Rightarrow> bool" where
  "identity_kept s s' =
     (board_type s' = board_type s \<and> vendor_mcs_enabled s' = vendor_mcs_enabled s
      \<and> have_oem_device_info s' = have_oem_device_info s \<and> device_serial s' = device_serial s
      \<and> echo_commands s' = echo_commands s)"

text \<open>The privilege and the factory mode cached by a session.\<close>

definition mode_kept :: "neo_session \<Rightarrow> neo_session \<Rightarrow> bool" where
  "mode_kept s s' = (root s' = root s \<and> factory_mode s' = factory_mode s)"

section \<open>Properties of command results\<close>

lemma linebreak_isspace: "py_linebreak c \<Longrightarrow> py_isspace c"
  by (auto simp: py_linebreak_def py_isspace_def)

lemma splitlines_from_Nil_iff: "splitlines_from cur s = [] \<longleftrightarrow> cur = [] \<and> s = []"
  by (induction cur s rule: splitlines_from.induct) auto

lemma splitlines_from_plain:
  "\<forall>c \<in> set s. \<not> py_linebreak c \<Longrightarrow>
   splitlines_from cur s = (if cur = [] \<and> s = [] then [] else [rev cur @ s])"
proof (induction s arbitrary: cur)
  case Nil
  then show ?case by simp
next
  case (Cons c cs)
  from Cons.prems have nb: "\<not> py_linebreak c" and rest: "\<forall>c \<in> set cs. \<not> py_linebreak c"
    by simp_all
  from nb have "c \<noteq> CHR 0x0D" by (auto simp: py_linebreak_def)
  with nb have "splitlines_from cur (c # cs) = splitlines_from (c # cur) cs" by simp
  with Cons.IH [OF rest, of "c # cur"] show ?case by simp
qed

lemma splitlines_from_short:
  "length (splitlines_from cur s) \<le> 1 \<Longrightarrow>
   \<exists>a b. s = a @ b \<and> (\<forall>c \<in> set a. \<not> py_linebreak c) \<and> (\<forall>c \<in> set b. py_isspace c)"
proof (induction s arbitrary: cur)
  case Nil
  then show ?case by simp
next
  case (Cons c cs)
  show ?case
  proof (cases "py_linebreak c")
    case False
    then have "c \<noteq> CHR 0x0D" by (auto simp: py_linebreak_def)
    with False Cons.prems have "length (splitlines_from (c # cur) cs) \<le> 1" by simp
    from Cons.IH [OF this] obtain a b where
      ab: "cs = a @ b" "\<forall>c \<in> set a. \<not> py_linebreak c" "\<forall>c \<in> set b. py_isspace c" by blast
    with False have "c # cs = (c # a) @ b \<and> (\<forall>x \<in> set (c # a). \<not> py_linebreak x) \<and> (\<forall>x \<in> set b. py_isspace x)"
      by simp
    then show ?thesis by blast
  next
    case True
    show ?thesis
    proof (cases "c = CHR 0x0D \<and> cs \<noteq> [] \<and> hd cs = CHR 0x0A")
      case crlf: True
      with Cons.prems have "splitlines_from [] (tl cs) = []" by simp
      then have "tl cs = []" by (simp add: splitlines_from_Nil_iff)
      with crlf have "cs = [CHR 0x0A]" by (cases cs) auto
      with crlf have "\<forall>x \<in> set (c # cs). py_isspace x" by (simp add: py_isspace_def)
      then have "c # cs = [] @ (c # cs) \<and> (\<forall>x \<in> set []. \<not> py_linebreak x) \<and> (\<forall>x \<in> set (c # cs). py_isspace x)"
        by simp
      then show ?thesis by blast
    next
      case False
      with True Cons.prems have "splitlines_from [] cs = []" by (auto split: if_splits)
      then have "cs = []" by (simp add: splitlines_from_Nil_iff)
      with True have "c # cs = [] @ (c # cs) \<and> (\<forall>x \<in> set []. \<not> py_linebreak x) \<and> (\<forall>x \<in> set (c # cs). py_isspace x)"
        by (simp add: linebreak_isspace)
      then show ?thesis by blast
    qed
  qed
qed

lemma strip_append_spaces:
  assumes "\<forall>c \<in> set b. py_isspace c"
  shows "py_strip (a @ b) = py_strip a"
proof (cases "\<forall>c \<in> set a. py_isspace c")
  case True
  with assms have "\<forall>c \<in> set (a @ b). py_isspace c" by auto
  then have "dropWhile py_isspace (a @ b) = []" by (simp only: dropWhile_eq_Nil_conv)
  moreover from True have "dropWhile py_isspace a = []" by (simp only: dropWhile_eq_Nil_conv)
  ultimately show ?thesis by (simp only: py_strip_def)
next
  case False
  then obtain x where "x \<in> set a" "\<not> py_isspace x" by blast
  then have "dropWhile py_isspace (a @ b) = dropWhile py_isspace a @ b"
    by (rule dropWhile_append1)
  moreover from assms have "dropWhile py_isspace (rev b @ rev (dropWhile py_isspace a))
      = dropWhile py_isspace (rev (dropWhile py_isspace a))"
    by (intro dropWhile_append2) simp
  ultimately show ?thesis by (simp add: py_strip_def)
qed

lemma set_strip: "set (py_strip s) \<subseteq> set s"
proof -
  have "set (py_strip s) \<subseteq> set (dropWhile py_isspace s)"
    unfolding py_strip_def using set_dropWhileD [of _ py_isspace "rev (dropWhile py_isspace s)"] by auto
  also have "\<dots> \<subseteq> set s" using set_dropWhileD [of _ py_isspace s] by auto
  finally show ?thesis .
qed

lemma single_line_strip:
  assumes "length (py_splitlines s) \<le> 1" and "py_strip s \<noteq> []"
  shows "py_splitlines (py_strip s) = [py_strip s]"
proof -
  from assms(1) obtain a b where
    ab: "s = a @ b" "\<forall>c \<in> set a. \<not> py_linebreak c" "\<forall>c \<in> set b. py_isspace c"
    unfolding py_splitlines_def using splitlines_from_short by blast
  then have eq: "py_strip s = py_strip a" by (simp add: strip_append_spaces)
  from ab(2) set_strip [of a] have "\<forall>c \<in> set (py_strip a). \<not> py_linebreak c" by blast
  with eq have "\<forall>c \<in> set (py_strip s). \<not> py_linebreak c" by simp
  from splitlines_from_plain [OF this, of "[]"] assms(2) show ?thesis
    by (simp add: py_splitlines_def)
qed

lemma assert_string_Inr:
  "assert_string r = Inr v \<longleftrightarrow>
     succeeded r \<and> py_strip (stdout (completed_proc r)) \<noteq> []
     \<and> length (py_splitlines (stdout (completed_proc r))) \<le> 1
     \<and> v = py_strip (stdout (completed_proc r))"
  by (auto simp: assert_string_def assert_succeeded_def Let_def)

lemma splitlines_from_one_line:
  "length (splitlines_from cur s) \<le> 1 \<longleftrightarrow>
     (let b = dropWhile (\<lambda>c. \<not> py_linebreak c) s in length b \<le> 1 \<or> b = [CHR 0x0D, CHR 0x0A])"
proof (induction s arbitrary: cur)
  case Nil
  then show ?case by simp
next
  case (Cons c cs)
  show ?case
  proof (cases "py_linebreak c")
    case False
    then have "c \<noteq> CHR 0x0D" by (auto simp: py_linebreak_def)
    with False Cons.IH [of "c # cur"] show ?thesis by simp
  next
    case True
    show ?thesis
    proof (cases "c = CHR 0x0D \<and> cs \<noteq> [] \<and> hd cs = CHR 0x0A")
      case crlf: True
      then obtain ds where cs: "cs = CHR 0x0A # ds" by (cases cs) auto
      with crlf True show ?thesis by (simp add: splitlines_from_Nil_iff)
    next
      case False
      with True have "length (splitlines_from cur (c # cs)) \<le> 1 \<longleftrightarrow> cs = []"
        by (auto simp: splitlines_from_Nil_iff)
      moreover from False True have "c # cs = [CHR 0x0D, CHR 0x0A] \<longrightarrow> cs = []" by auto
      ultimately show ?thesis using True by auto
    qed
  qed
qed

text \<open>
  Claim C7 fails as stated. The lines of stdout are counted before it is trimmed: a
  succeeded command whose stdout is \<open>\nabc\n\<close> or \<open>abc\n\n\<close> has, after trimming,
  exactly the one non-empty line \<open>abc\<close>, and \<^verbatim>\<open>assert_string\<close> raises the single-string
  error, because \<open>splitlines()\<close> of the untrimmed stdout has two entries.
\<close>

theorem assert_string_counts_lines_before_trimming:
  "succeeded (CommandResult [''adb'', ''shell'', ''getprop'', ''ro.product.device'']
       \<lparr>returncode = 0, stdout = ''\<newline>abc\<newline>'', stderr = ''''\<rparr>)
   \<and> py_strip ''\<newline>abc\<newline>'' = ''abc'' \<and> py_strip ''abc\<newline>\<newline>'' = ''abc''
   \<and> py_splitlines ''abc'' = [''abc'']
   \<and> py_splitlines ''\<newline>abc\<newline>'' = ['''', ''abc'']
   \<and> py_splitlines ''abc\<newline>\<newline>'' = [''abc'', '''']
   \<and> assert_string (CommandResult [''adb'', ''shell'', ''getprop'', ''ro.product.device'']
       \<lparr>returncode = 0, stdout = ''\<newline>abc\<newline>'', stderr = ''''\<rparr>)
      = Inl (ADBAssertionError (single_string_message
          (CommandResult [''adb'', ''shell'', ''getprop'', ''ro.product.device'']
             \<lparr>returncode = 0, stdout = ''\<newline>abc\<newline>'', stderr = ''''\<rparr>)))
   \<and> assert_string (CommandResult [''adb'', ''shell'', ''getprop'', ''ro.product.device'']
       \<lparr>returncode = 0, stdout = ''abc\<newline>\<newline>'', stderr = ''''\<rparr>)
      = Inl (ADBAssertionError (single_string_message
          (CommandResult [''adb'', ''shell'', ''getprop'', ''ro.product.device'']
             \<lparr>returncode = 0, stdout = ''abc\<newline>\<newline>'', stderr = ''''\<rparr>)))"
  by (simp add: assert_string_def assert_succeeded_def succeeded_def CommandResult_def
      py_strip_def py_isspace_def py_splitlines_def py_linebreak_def)

text \<open>
  Claim C7, amended. \<^verbatim>\<open>assert_string\<close> returns \<open>v\<close> exactly when the command succeeded,
  stdout is not blank after trimming, the untrimmed stdout has at most one line as
  \<open>splitlines()\<close> counts them, and \<open>v\<close> is the trimmed stdout. At most one line means:
  from the first line-boundary character on, stdout holds that character alone or the
  pair \<open>\r\n\<close> alone. The returned value is then non-empty and a single line. A failed
  command raises the failure message; a succeeded command with a blank stdout or with
  more than one line raises the single-string message. For stdout \<open>abc\n\<close> the value is
  \<open>abc\<close>; for an empty stdout and for stdout \<open>a\nb\n\<close> the call fails.
\<close>

theorem assert_string_exact:
  "(assert_string r = Inr v \<longleftrightarrow>
      succeeded r \<and> py_strip (stdout (completed_proc r)) \<noteq> []
      \<and> length (py_splitlines (stdout (completed_proc r))) \<le> 1
      \<and> v = py_strip (stdout (completed_proc r)))
   \<and> (length (py_splitlines s) \<le> 1 \<longleftrightarrow>
        (let b = dropWhile (\<lambda>c. \<not> py_linebreak c) s in length b \<le> 1 \<or> b = [CHR 0x0D, CHR 0x0A]))
   \<and> (assert_string r = Inr v \<longrightarrow> v \<noteq> [] \<and> py_splitlines v = [v])
   \<and> (\<not> succeeded r \<longrightarrow> assert_string r = Inl (ADBAssertionError (failure_message r)))
   \<and> (succeeded r \<and> (py_strip (stdout (completed_proc r)) = []
          \<or> 1 < length (py_splitlines (stdout (completed_proc r))))
        \<longrightarrow> assert_string r = Inl (ADBAssertionError (single_string_message r)))
   \<and> assert_string (CommandResult cmd \<lparr>returncode = 0, stdout = ''abc\<newline>'', stderr = err\<rparr>) = Inr ''abc''
   \<and> isl (assert_string (CommandResult cmd \<lparr>returncode = 0, stdout = '''', stderr = err\<rparr>))
   \<and> isl (assert_string (CommandResult cmd \<lparr>returncode = 0, stdout = ''a\<newline>b\<newline>'', stderr = err\<rparr>))"
proof (intro conjI impI)
  show "assert_string r = Inr v \<longleftrightarrow>
      succeeded r \<and> py_strip (stdout (completed_proc r)) \<noteq> []
      \<and> length (py_splitlines (stdout (completed_proc r))) \<le> 1
      \<and> v = py_strip (stdout (completed_proc r))"
    by (rule assert_string_Inr)
next
  show "length (py_splitlines s) \<le> 1 \<longleftrightarrow>
        (let b = dropWhile (\<lambda>c. \<not> py_linebreak c) s in length b \<le> 1 \<or> b = [CHR 0x0D, CHR 0x0A])"
    unfolding py_splitlines_def by (rule splitlines_from_one_line)
next
  assume ok: "assert_string r = Inr v"
  then show "v \<noteq> []" by (simp add: assert_string_Inr)
  from ok show "py_splitlines v = [v]"
    using single_line_strip [of "stdout (completed_proc r)"] by (simp add: assert_string_Inr)
next
  assume "\<not> succeeded r"
  then show "assert_string r = Inl (ADBAssertionError (failure_message r))"
    by (simp add: assert_string_def assert_succeeded_def)
next
  assume "succeeded r \<and> (py_strip (stdout (completed_proc r)) = []
          \<or> 1 < length (py_splitlines (stdout (completed_proc r))))"
  then show "assert_string r = Inl (ADBAssertionError (single_string_message r))"
    by (auto simp: assert_string_def assert_succeeded_def Let_def)
next
  show "assert_string (CommandResult cmd \<lparr>returncode = 0, stdout = ''abc\<newline>'', stderr = err\<rparr>) = Inr ''abc''"
    by (simp add: assert_string_def assert_succeeded_def succeeded_def CommandResult_def
        py_strip_def py_isspace_def py_splitlines_def py_linebreak_def)
next
  show "isl (assert_string (CommandResult cmd \<lparr>returncode = 0, stdout = '''', stderr = err\<rparr>))"
    by (simp add: assert_string_def assert_succeeded_def succeeded_def CommandResult_def py_strip_def)
next
  show "isl (assert_string (CommandResult cmd \<lparr>returncode = 0, stdout = ''a\<newline>b\<newline>'', stderr = err\<rparr>))"
    by (simp add: assert_string_def assert_succeeded_def succeeded_def CommandResult_def
        py_strip_def py_isspace_def py_splitlines_def py_linebreak_def)
qed

theorem assert_string_exact_witness:
  "assert_string (CommandResult [''adb'', ''shell'', ''getprop'', ''ro.product.device'']
       \<lparr>returncode = 0, stdout = ''hammerhead\<newline>'', stderr = ''''\<rparr>) = Inr ''hammerhead''
   \<and> succeeded (CommandResult [''adb'', ''shell'', ''getprop'', ''ro.product.device'']
       \<lparr>returncode = 0, stdout = ''hammerhead\<newline>'', stderr = ''''\<rparr>)
   \<and> length (py_splitlines ''hammerhead\<newline>'') \<le> 1
   \<and> py_splitlines ''hammerhead'' = [''hammerhead'']
   \<and> assert_string (CommandResult [''adb'', ''shell'', ''id'', ''-u'']
       \<lparr>returncode = 1, stdout = ''0\<newline>'', stderr = ''''\<rparr>)
      = Inl (ADBAssertionError ''FAILED (1): adb shell id -u\<newline>STDERR=STDOUT=0\<newline>'')
   \<and> succeeded (CommandResult [''adb'', ''shell'', ''ls'']
       \<lparr>returncode = 0, stdout = ''a\<newline>b\<newline>'', stderr = ''''\<rparr>)
   \<and> 1 < length (py_splitlines ''a\<newline>b\<newline>'')
   \<and> assert_string (CommandResult [''adb'', ''shell'', ''ls'']
       \<lparr>returncode = 0, stdout = ''a\<newline>b\<newline>'', stderr = ''''\<rparr>)
      = Inl (ADBAssertionError (single_string_message (CommandResult [''adb'', ''shell'', ''ls'']
       \<lparr>returncode = 0, stdout = ''a\<newline>b\<newline>'', stderr = ''''\<rparr>)))"
proof -
  let ?r = "CommandResult [''adb'', ''shell'', ''getprop'', ''ro.product.device'']
       \<lparr>returncode = 0, stdout = ''hammerhead\<newline>'', stderr = ''''\<rparr>"
  let ?q = "CommandResult [''adb'', ''shell'', ''id'', ''-u'']
       \<lparr>returncode = 1, stdout = ''0\<newline>'', stderr = ''''\<rparr>"
  let ?p = "CommandResult [''adb'', ''shell'', ''ls'']
       \<lparr>returncode = 0, stdout = ''a\<newline>b\<newline>'', stderr = ''''\<rparr>"
  have h: "assert_string ?r = Inr ''hammerhead''"
    by (simp add: assert_string_def assert_succeeded_def succeeded_def CommandResult_def
        py_strip_def py_isspace_def py_splitlines_def py_linebreak_def)
  have so: "stdout (completed_proc ?r) = ''hammerhead\<newline>''" by (simp add: CommandResult_def)
  have f: "\<not> succeeded ?q" by (simp add: succeeded_def CommandResult_def)
  have m: "failure_message ?q = ''FAILED (1): adb shell id -u\<newline>STDERR=STDOUT=0\<newline>''"
    by (simp add: failure_message_def succeeded_def CommandResult_def command_str_def py_str_int_def digit_char_def str_nat.simps [of "Suc 0"])
  have g: "succeeded ?p" by (simp add: succeeded_def CommandResult_def)
  have l: "1 < length (py_splitlines (stdout (completed_proc ?p)))"
    by (simp add: CommandResult_def py_splitlines_def py_linebreak_def)
  have sp: "stdout (completed_proc ?p) = ''a\<newline>b\<newline>''" by (simp add: CommandResult_def)
  from assert_string_exact [of ?r "''hammerhead''"] h
  have "succeeded ?r \<and> length (py_splitlines (stdout (completed_proc ?r))) \<le> 1
        \<and> py_splitlines ''hammerhead'' = [''hammerhead'']" by blast
  then have a: "succeeded ?r \<and> length (py_splitlines ''hammerhead\<newline>'') \<le> 1
        \<and> py_splitlines ''hammerhead'' = [''hammerhead'']" by (simp only: so)
  from assert_string_exact [of ?q] f m
  have b: "assert_string ?q = Inl (ADBAssertionError ''FAILED (1): adb shell id -u\<newline>STDERR=STDOUT=0\<newline>'')"
    by simp
  from assert_string_exact [of ?p] g l
  have c: "assert_string ?p = Inl (ADBAssertionError (single_string_message ?p))" by blast
  from l have l': "1 < length (py_splitlines ''a\<newline>b\<newline>'')" by (simp only: sp)
  from a b c h g l' show ?thesis by blast
qed

lemma digit_char_props:
  assumes "k < 10"
  shows "py_isdigit (digit_char k)" and "(of_char (digit_char k) :: nat) - 48 = k"
    and "\<not> py_isspace (digit_char k)" and "\<not> py_linebreak (digit_char k)"
    and "digit_char k \<noteq> CHR ''-''" and "digit_char k \<noteq> CHR ''+''"
proof -
  from assms have "k = 0 \<or> k = 1 \<or> k = 2 \<or> k = 3 \<or> k = 4 \<or> k = 5 \<or> k = 6 \<or> k = 7 \<or> k = 8 \<or> k = 9"
    by arith
  then show "py_isdigit (digit_char k)" and "(of_char (digit_char k) :: nat) - 48 = k"
    and "\<not> py_isspace (digit_char k)" and "\<not> py_linebreak (digit_char k)"
    and "digit_char k \<noteq> CHR ''-''" and "digit_char k \<noteq> CHR ''+''"
    by (auto simp: digit_char_def py_isdigit_def py_isspace_def py_linebreak_def)
qed

lemma digit_run_digits:
  "\<forall>c \<in> set xs. py_isdigit c \<Longrightarrow> digit_run p xs = (p \<or> xs \<noteq> [])"
  by (induction xs arbitrary: p) simp_all

lemma digit_value_digits:
  "\<forall>c \<in> set xs. py_isdigit c \<Longrightarrow>
   digit_value acc xs = foldl (\<lambda>a c. a * 10 + (of_char c - 48)) acc xs"
  by (induction xs arbitrary: acc) simp_all

lemma str_nat_digits: "\<forall>c \<in> set (str_nat n). py_isdigit c \<and> \<not> py_isspace c \<and> \<not> py_linebreak c"
proof (induction n rule: str_nat.induct)
  case (1 n)
  show ?case
  proof (cases "n < 10")
    case True
    then show ?thesis by (subst str_nat.simps) (simp add: digit_char_props)
  next
    case False
    have "n mod 10 < 10" by simp
    with False 1 show ?thesis by (subst str_nat.simps) (simp add: digit_char_props)
  qed
qed

lemma str_nat_snoc: "\<exists>xs d. str_nat n = xs @ [d] \<and> (\<forall>c \<in> set xs. py_isdigit c) \<and> py_isdigit d"
proof (cases "n < 10")
  case True
  then have "str_nat n = [] @ [digit_char n]" by (subst str_nat.simps) simp
  with True show ?thesis using digit_char_props(1) by fastforce
next
  case False
  have "n mod 10 < 10" by simp
  then have "py_isdigit (digit_char (n mod 10))" by (rule digit_char_props)
  moreover from False have "str_nat n = str_nat (n div 10) @ [digit_char (n mod 10)]"
    by (subst str_nat.simps) simp
  ultimately show ?thesis using str_nat_digits [of "n div 10"] by blast
qed

lemma str_nat_value: "foldl (\<lambda>a c. a * 10 + (of_char c - 48)) 0 (str_nat n) = n"
proof (induction n rule: str_nat.induct)
  case (1 n)
  show ?case
  proof (cases "n < 10")
    case True
    then show ?thesis by (subst str_nat.simps) (simp add: digit_char_props)
  next
    case False
    have "n mod 10 < 10" by simp
    then have "(of_char (digit_char (n mod 10)) :: nat) - 48 = n mod 10" by (rule digit_char_props)
    with False 1 show ?thesis by (subst str_nat.simps) simp
  qed
qed

lemma str_nat_not_Nil: "str_nat n \<noteq> []"
  using str_nat_snoc [of n] by auto

lemma strip_plain:
  assumes "s \<noteq> []" "\<not> py_isspace (hd s)" "\<not> py_isspace (last s)"
  shows "py_strip s = s"
proof -
  from assms have a: "dropWhile py_isspace s = s" by (cases s) auto
  from assms have "rev s \<noteq> []" "\<not> py_isspace (hd (rev s))" by (simp_all add: hd_rev)
  then have "dropWhile py_isspace (rev s) = rev s" by (cases "rev s") auto
  with a show ?thesis by (simp add: py_strip_def)
qed

lemma str_nat_strip: "py_strip (str_nat n) = str_nat n"
proof -
  have "hd (str_nat n) \<in> set (str_nat n)" "last (str_nat n) \<in> set (str_nat n)"
    using str_nat_not_Nil by simp_all
  then show ?thesis using str_nat_digits [of n] str_nat_not_Nil [of n] by (intro strip_plain) auto
qed

lemma str_nat_hd: "hd (str_nat n) \<noteq> CHR ''-'' \<and> hd (str_nat n) \<noteq> CHR ''+''"
proof -
  have "hd (str_nat n) \<in> set (str_nat n)" using str_nat_not_Nil by simp
  then have "py_isdigit (hd (str_nat n))" using str_nat_digits by blast
  then show ?thesis by (auto simp: py_isdigit_def)
qed

lemma digit_run_str_nat: "digit_run False (str_nat n)"
  using str_nat_digits [of n] str_nat_not_Nil [of n] by (simp add: digit_run_digits)

lemma digit_value_str_nat: "digit_value 0 (str_nat n) = n"
  using str_nat_digits [of n] by (simp add: digit_value_digits str_nat_value)

lemma str_nat_filter_digits: "filter py_isdigit (str_nat n) = str_nat n"
  using str_nat_digits [of n] by (simp add: filter_id_conv)

lemma str_nat_length_le: "0 < k \<Longrightarrow> n < 10 ^ k \<Longrightarrow> length (str_nat n) \<le> k"
proof (induction n arbitrary: k rule: str_nat.induct)
  case (1 n)
  show ?case
  proof (cases "n < 10")
    case True
    with 1(2) show ?thesis by (subst str_nat.simps) simp
  next
    case False
    from 1(2) obtain j where k: "k = Suc j" by (cases k) auto
    with 1(3) have "n div 10 < 10 ^ j" by (simp add: less_mult_imp_div_less mult.commute)
    moreover from False this have "0 < j" by (cases j) auto
    ultimately have "length (str_nat (n div 10)) \<le> j" using 1(1) [OF False] by blast
    with False k show ?thesis by (subst str_nat.simps) simp
  qed
qed

lemma str_nat_length_gt: "10 ^ k \<le> n \<Longrightarrow> k < length (str_nat n)"
proof (induction n arbitrary: k rule: str_nat.induct)
  case (1 n)
  show ?case
  proof (cases "n < 10")
    case True
    have "k = 0"
    proof (rule ccontr)
      assume "k \<noteq> 0"
      then have "(10 :: nat) ^ 1 \<le> 10 ^ k" by (intro power_increasing) simp_all
      with 1(2) True show False by simp
    qed
    with True show ?thesis by (subst str_nat.simps) simp
  next
    case False
    show ?thesis
    proof (cases k)
      case 0
      then show ?thesis using str_nat_not_Nil [of n] by simp
    next
      case (Suc j)
      with 1(2) have "10 ^ j \<le> n div 10" by (simp add: less_eq_div_iff_mult_less_eq mult.commute)
      then have "j < length (str_nat (n div 10))" using 1(1) [OF False] by blast
      with False Suc show ?thesis by (subst str_nat.simps) simp
    qed
  qed
qed

lemma str_nat_length_iff: "length (str_nat n) \<le> int_max_str_digits \<longleftrightarrow> n < 10 ^ int_max_str_digits"
proof
  assume "length (str_nat n) \<le> int_max_str_digits"
  then show "n < 10 ^ int_max_str_digits"
    using str_nat_length_gt [of int_max_str_digits n] by (cases "n < 10 ^ int_max_str_digits") auto
next
  have "0 < int_max_str_digits" by (simp add: int_max_str_digits_def)
  moreover assume "n < 10 ^ int_max_str_digits"
  ultimately show "length (str_nat n) \<le> int_max_str_digits" by (rule str_nat_length_le)
qed

lemma str_nat_run: "takeWhile (\<lambda>c. py_isdigit c \<or> c = CHR ''_'') (str_nat n) = str_nat n"
  using str_nat_digits [of n] by (simp add: takeWhile_eq_all_conv)

lemma py_int_str_nat:
  "py_int (str_nat n) =
     (if n < 10 ^ int_max_str_digits then Inr (int n)
      else Inl (ValueError (digit_limit_message (length (str_nat n)))))"
proof -
  have "str_nat n \<noteq> []" by (rule str_nat_not_Nil)
  moreover have "hd (str_nat n) \<noteq> CHR ''-''" "hd (str_nat n) \<noteq> CHR ''+''"
    using str_nat_hd [of n] by simp_all
  moreover have "length (str_nat n) \<le> int_max_str_digits \<longleftrightarrow> n < 10 ^ int_max_str_digits"
    by (rule str_nat_length_iff)
  ultimately show ?thesis
    by (simp add: py_int_def Let_def str_nat_strip str_nat_run str_nat_filter_digits
        digit_run_str_nat digit_value_str_nat not_le [symmetric])
qed

lemma py_strip_minus: "py_strip (CHR ''-'' # str_nat n) = CHR ''-'' # str_nat n"
proof -
  have "last (str_nat n) \<in> set (str_nat n)" using str_nat_not_Nil by simp
  then have "\<not> py_isspace (last (str_nat n))" using str_nat_digits by blast
  then show ?thesis using str_nat_not_Nil [of n]
    by (intro strip_plain) (auto simp: py_isspace_def)
qed

lemma py_int_minus_str_nat:
  "py_int (CHR ''-'' # str_nat n) =
     (if n < 10 ^ int_max_str_digits then Inr (- int n)
      else Inl (ValueError (digit_limit_message (length (str_nat n)))))"
proof -
  have "length (str_nat n) \<le> int_max_str_digits \<longleftrightarrow> n < 10 ^ int_max_str_digits"
    by (rule str_nat_length_iff)
  then show ?thesis
    by (simp add: py_int_def Let_def py_strip_minus str_nat_run str_nat_filter_digits
        digit_run_str_nat digit_value_str_nat not_le [symmetric])
qed

lemma abs_less_power: "\<bar>i\<bar> < 10 ^ k \<longleftrightarrow> nat \<bar>i\<bar> < 10 ^ k"
proof -
  have "\<bar>i\<bar> < 10 ^ k \<longleftrightarrow> int (nat \<bar>i\<bar>) < int (10 ^ k)" by simp
  also have "\<dots> \<longleftrightarrow> nat \<bar>i\<bar> < 10 ^ k" by (simp only: of_nat_less_iff)
  finally show ?thesis .
qed

lemma py_int_str_int:
  "py_int (py_str_int i) =
     (if \<bar>i\<bar> < 10 ^ int_max_str_digits then Inr i
      else Inl (ValueError (digit_limit_message (length (str_nat (nat \<bar>i\<bar>))))))"
proof (cases "i < 0")
  case True
  then have "nat \<bar>i\<bar> = nat (- i)" by simp
  with True show ?thesis
    by (simp only: py_str_int_def py_int_minus_str_nat abs_less_power [of i] if_True) simp
next
  case False
  then have "nat \<bar>i\<bar> = nat i" by simp
  with False show ?thesis
    by (simp only: py_str_int_def py_int_str_nat abs_less_power [of i] if_False) simp
qed

lemma splitlines_from_plain_prefix:
  "\<forall>c \<in> set a. \<not> py_linebreak c \<Longrightarrow> splitlines_from cur (a @ b) = splitlines_from (rev a @ cur) b"
proof (induction a arbitrary: cur)
  case Nil
  then show ?case by simp
next
  case (Cons c cs)
  then have "\<not> py_linebreak c" by simp
  then have "c \<noteq> CHR 0x0D" by (auto simp: py_linebreak_def)
  with \<open>\<not> py_linebreak c\<close> Cons show ?case by simp
qed

lemma py_str_int_plain:
  "py_str_int i \<noteq> [] \<and> (\<forall>c \<in> set (py_str_int i). \<not> py_linebreak c) \<and> py_strip (py_str_int i) = py_str_int i"
  using str_nat_digits str_nat_not_Nil
  by (auto simp: py_str_int_def py_strip_minus str_nat_strip py_linebreak_def)

lemma assert_string_str_int:
  "assert_string (CommandResult cmd \<lparr>returncode = 0, stdout = py_str_int i @ ''\<newline>'', stderr = err\<rparr>)
     = Inr (py_str_int i)"
proof -
  have nl: "\<forall>c \<in> set ''\<newline>''. py_isspace c" by (simp add: py_isspace_def)
  have a: "py_strip (py_str_int i @ ''\<newline>'') = py_str_int i"
    using strip_append_spaces [OF nl, of "py_str_int i"] py_str_int_plain [of i] by simp
  have "splitlines_from [] (py_str_int i @ ''\<newline>'') = splitlines_from (rev (py_str_int i) @ []) ''\<newline>''"
    using py_str_int_plain [of i] by (intro splitlines_from_plain_prefix) blast
  then have b: "py_splitlines (py_str_int i @ ''\<newline>'') = [py_str_int i]"
    by (simp add: py_splitlines_def py_linebreak_def)
  from a b py_str_int_plain [of i] show ?thesis
    by (simp add: assert_string_def assert_succeeded_def succeeded_def CommandResult_def)
qed

lemma messages_differ: "integer_message r \<noteq> single_string_message r"
  by (simp add: integer_message_def single_string_message_def)

text \<open>
  Claim C8. \<^verbatim>\<open>assert_int\<close> passes a failure of \<^verbatim>\<open>assert_string\<close> on unchanged, and
  otherwise reads the single line as a base-10 integer with \<open>int()\<close>: the decimal text of
  an integer \<open>i\<close> of at most 4300 digits, the most that \<open>int()\<close> converts by default,
  gives \<open>i\<close> back, and stdout \<open>0\n\<close> gives 0. Where \<open>int()\<close> refuses the line, the
  call fails with the integer message, which differs from the single-string message of
  \<^verbatim>\<open>assert_string\<close>: so for a line that is no integer (stdout \<open>root\n\<close>), and so for
  the decimal text of an integer of more than 4300 digits.
\<close>

theorem assert_int_base10:
  "(assert_string r = Inl e \<longrightarrow> assert_int r = Inl e)
   \<and> (assert_string r = Inr s \<longrightarrow>
        assert_int r = (case py_int s of Inl x \<Rightarrow> Inl (ADBAssertionError (integer_message r)) | Inr n \<Rightarrow> Inr n))
   \<and> integer_message r \<noteq> single_string_message r
   \<and> (\<bar>i\<bar> < 10 ^ int_max_str_digits \<longrightarrow>
        assert_int (CommandResult cmd \<lparr>returncode = 0, stdout = py_str_int i @ ''\<newline>'', stderr = err\<rparr>) = Inr i)
   \<and> (10 ^ int_max_str_digits \<le> \<bar>i\<bar> \<longrightarrow>
        assert_int (CommandResult cmd \<lparr>returncode = 0, stdout = py_str_int i @ ''\<newline>'', stderr = err\<rparr>)
          = Inl (ADBAssertionError (integer_message
               (CommandResult cmd \<lparr>returncode = 0, stdout = py_str_int i @ ''\<newline>'', stderr = err\<rparr>))))
   \<and> assert_int (CommandResult cmd \<lparr>returncode = 0, stdout = ''0\<newline>'', stderr = err\<rparr>) = Inr 0
   \<and> assert_int (CommandResult cmd \<lparr>returncode = 0, stdout = ''root\<newline>'', stderr = err\<rparr>)
       = Inl (ADBAssertionError (integer_message
            (CommandResult cmd \<lparr>returncode = 0, stdout = ''root\<newline>'', stderr = err\<rparr>)))"
proof (intro conjI impI)
  assume "assert_string r = Inl e"
  then show "assert_int r = Inl e" by (simp add: assert_int_def)
next
  assume "assert_string r = Inr s"
  then show "assert_int r = (case py_int s of Inl x \<Rightarrow> Inl (ADBAssertionError (integer_message r)) | Inr n \<Rightarrow> Inr n)"
    by (simp add: assert_int_def)
next
  show "integer_message r \<noteq> single_string_message r" by (rule messages_differ)
next
  assume "\<bar>i\<bar> < 10 ^ int_max_str_digits"
  then show "assert_int (CommandResult cmd \<lparr>returncode = 0, stdout = py_str_int i @ ''\<newline>'', stderr = err\<rparr>) = Inr i"
    by (simp add: assert_int_def assert_string_str_int py_int_str_int)
next
  assume "10 ^ int_max_str_digits \<le> \<bar>i\<bar>"
  then have "\<not> \<bar>i\<bar> < 10 ^ int_max_str_digits" by simp
  then show "assert_int (CommandResult cmd \<lparr>returncode = 0, stdout = py_str_int i @ ''\<newline>'', stderr = err\<rparr>)
          = Inl (ADBAssertionError (integer_message
               (CommandResult cmd \<lparr>returncode = 0, stdout = py_str_int i @ ''\<newline>'', stderr = err\<rparr>)))"
    by (simp add: assert_int_def assert_string_str_int py_int_str_int)
next
  show "assert_int (CommandResult cmd \<lparr>returncode = 0, stdout = ''0\<newline>'', stderr = err\<rparr>) = Inr 0"
    by (simp add: assert_int_def assert_string_def assert_succeeded_def succeeded_def CommandResult_def
        py_strip_def py_isspace_def py_splitlines_def py_linebreak_def py_int_def py_isdigit_def
        int_max_str_digits_def)
next
  show "assert_int (CommandResult cmd \<lparr>returncode = 0, stdout = ''root\<newline>'', stderr = err\<rparr>)
       = Inl (ADBAssertionError (integer_message
            (CommandResult cmd \<lparr>returncode = 0, stdout = ''root\<newline>'', stderr = err\<rparr>)))"
    by (simp add: assert_int_def assert_string_def assert_succeeded_def succeeded_def CommandResult_def
        py_strip_def py_isspace_def py_splitlines_def py_linebreak_def py_int_def py_isdigit_def
        int_max_str_digits_def)
qed

theorem assert_int_base10_witness:
  "assert_string (CommandResult [''adb'', ''shell'', ''id'', ''-u'']
       \<lparr>returncode = 0, stdout = ''2000\<newline>'', stderr = ''''\<rparr>) = Inr ''2000''
   \<and> assert_int (CommandResult [''adb'', ''shell'', ''id'', ''-u'']
       \<lparr>returncode = 0, stdout = ''2000\<newline>'', stderr = ''''\<rparr>) = Inr 2000
   \<and> assert_string (CommandResult [''adb'', ''shell'', ''id'', ''-u'']
       \<lparr>returncode = 0, stdout = ''a\<newline>b\<newline>'', stderr = ''''\<rparr>)
      = Inl (ADBAssertionError (single_string_message (CommandResult [''adb'', ''shell'', ''id'', ''-u'']
       \<lparr>returncode = 0, stdout = ''a\<newline>b\<newline>'', stderr = ''''\<rparr>)))
   \<and> assert_int (CommandResult [''adb'', ''shell'', ''id'', ''-u'']
       \<lparr>returncode = 0, stdout = ''a\<newline>b\<newline>'', stderr = ''''\<rparr>)
      = Inl (ADBAssertionError (single_string_message (CommandResult [''adb'', ''shell'', ''id'', ''-u'']
       \<lparr>returncode = 0, stdout = ''a\<newline>b\<newline>'', stderr = ''''\<rparr>)))
   \<and> \<bar>- 12 :: int\<bar> < 10 ^ int_max_str_digits
   \<and> py_str_int (- 12) = ''-12''
   \<and> assert_int (CommandResult [''adb'', ''shell'', ''cat'', ''/sys/class/thermal/temp'']
       \<lparr>returncode = 0, stdout = ''-12\<newline>'', stderr = ''''\<rparr>) = Inr (- 12)
   \<and> (10 :: int) ^ int_max_str_digits \<le> \<bar>10 ^ int_max_str_digits\<bar>
   \<and> assert_int (CommandResult [''adb'', ''shell'', ''cat'', ''/data/count'']
       \<lparr>returncode = 0, stdout = py_str_int (10 ^ int_max_str_digits) @ ''\<newline>'', stderr = ''''\<rparr>)
      = Inl (ADBAssertionError (integer_message (CommandResult [''adb'', ''shell'', ''cat'', ''/data/count'']
       \<lparr>returncode = 0, stdout = py_str_int (10 ^ int_max_str_digits) @ ''\<newline>'', stderr = ''''\<rparr>)))"
proof -
  let ?r = "CommandResult [''adb'', ''shell'', ''id'', ''-u'']
       \<lparr>returncode = 0, stdout = ''2000\<newline>'', stderr = ''''\<rparr>"
  let ?q = "CommandResult [''adb'', ''shell'', ''id'', ''-u'']
       \<lparr>returncode = 0, stdout = ''a\<newline>b\<newline>'', stderr = ''''\<rparr>"
  have h: "assert_string ?r = Inr ''2000''"
    by (simp add: assert_string_def assert_succeeded_def succeeded_def CommandResult_def
        py_strip_def py_isspace_def py_splitlines_def py_linebreak_def)
  have p: "py_int ''2000'' = Inr 2000"
    by (simp add: py_int_def py_strip_def py_isspace_def py_isdigit_def int_max_str_digits_def)
  have g: "assert_string ?q = Inl (ADBAssertionError (single_string_message ?q))"
    by (simp add: assert_string_def assert_succeeded_def succeeded_def CommandResult_def
        py_strip_def py_isspace_def py_splitlines_def py_linebreak_def)
  have "(10 :: int) ^ 2 \<le> 10 ^ int_max_str_digits"
    by (rule power_increasing) (simp_all add: int_max_str_digits_def)
  then have small: "\<bar>- 12 :: int\<bar> < 10 ^ int_max_str_digits" by simp
  have dec: "py_str_int (- 12) = ''-12''"
    by (simp add: py_str_int_def digit_char_def str_nat.simps [of 12] str_nat.simps [of "Suc 0"])
  have large: "(10 :: int) ^ int_max_str_digits \<le> \<bar>10 ^ int_max_str_digits\<bar>" by simp
  from assert_int_base10 [of ?r _ "''2000''"] h p have a: "assert_int ?r = Inr 2000" by simp
  from assert_int_base10 [of ?q "ADBAssertionError (single_string_message ?q)"] g
  have b: "assert_int ?q = Inl (ADBAssertionError (single_string_message ?q))" by blast
  from assert_int_base10 [where i = "- 12" and cmd = "[''adb'', ''shell'', ''cat'', ''/sys/class/thermal/temp'']" and err = "''''"] small
  have "assert_int (CommandResult [''adb'', ''shell'', ''cat'', ''/sys/class/thermal/temp'']
       \<lparr>returncode = 0, stdout = py_str_int (- 12) @ ''\<newline>'', stderr = ''''\<rparr>) = Inr (- 12)" by blast
  then have c: "assert_int (CommandResult [''adb'', ''shell'', ''cat'', ''/sys/class/thermal/temp'']
       \<lparr>returncode = 0, stdout = ''-12\<newline>'', stderr = ''''\<rparr>) = Inr (- 12)"
    by (simp only: dec append.simps)
  from assert_int_base10 [where i = "10 ^ int_max_str_digits" and cmd = "[''adb'', ''shell'', ''cat'', ''/data/count'']" and err = "''''"] large
  have d: "assert_int (CommandResult [''adb'', ''shell'', ''cat'', ''/data/count'']
       \<lparr>returncode = 0, stdout = py_str_int (10 ^ int_max_str_digits) @ ''\<newline>'', stderr = ''''\<rparr>)
      = Inl (ADBAssertionError (integer_message (CommandResult [''adb'', ''shell'', ''cat'', ''/data/count'']
       \<lparr>returncode = 0, stdout = py_str_int (10 ^ int_max_str_digits) @ ''\<newline>'', stderr = ''''\<rparr>)))"
    by blast
  from a b c d h g small dec large show ?thesis by blast
qed

section \<open>Properties of pattern search and JSON results\<close>

lemma search_in_no_match:
  "re_search lib p text = Inr None \<Longrightarrow> search_in lib text p = Inr None"
  by (simp add: search_in_def)

lemma search_in_match:
  "re_search lib p text = Inr (Some (Match w (g # gs))) \<Longrightarrow> search_in lib text p = Inr (Some (py_str g))"
  by (simp add: search_in_def)

lemma search_in_no_group:
  "re_search lib p text = Inr (Some (Match w [])) \<Longrightarrow> search_in lib text p = Inl (IndexError ''no such group'')"
  by (simp add: search_in_def)

lemma py_re_search_abc: "py_re_search ''abc'' ''abc'' = Inr (Some (Match ''abc'' []))"
  by code_simp

text \<open>
  Claim C9 does not hold for every pattern. \<^verbatim>\<open>search\<close> asks the match for group 1 whenever
  the pattern matches: for the pattern \<open>abc\<close>, which has no group, on stdout \<open>abc\<close> it
  raises \<^verbatim>\<open>IndexError\<close> instead of returning.
\<close>

theorem search_without_group_raises:
  "search python (CommandResult [''adb'', ''version''] \<lparr>returncode = 0, stdout = ''abc'', stderr = ''''\<rparr>) ''abc''
     = Inl (IndexError ''no such group'')"
  by (simp add: search_def search_in_def python_def CommandResult_def py_re_search_abc)

text \<open>
  Claim C9, amended. Whatever \<open>re.search\<close> computes: where it finds no match, \<^verbatim>\<open>search\<close>
  and \<^verbatim>\<open>stderr_search\<close> return \<^verbatim>\<open>None\<close> without raising and \<^verbatim>\<open>assert_search\<close> raises
  \<^verbatim>\<open>ADBAssertionError\<close>; where it finds a match of a pattern with at least one group, they
  return \<open>str\<close> of the first group (the text \<open>None\<close> for a group that took no part in
  the match), and so does \<^verbatim>\<open>assert_search\<close>.
\<close>

theorem search_first_group:
  "(re_search lib p (stdout (completed_proc r)) = Inr None \<longrightarrow>
      search lib r p = Inr None \<and> assert_search lib r p = Inl (ADBAssertionError (match_message r p)))
   \<and> (re_search lib p (stdout (completed_proc r)) = Inr (Some (Match w (g # gs))) \<longrightarrow>
      search lib r p = Inr (Some (py_str g)) \<and> assert_search lib r p = Inr (py_str g))
   \<and> (re_search lib p (stderr (completed_proc r)) = Inr None \<longrightarrow> stderr_search lib r p = Inr None)
   \<and> (re_search lib p (stderr (completed_proc r)) = Inr (Some (Match w (g # gs))) \<longrightarrow>
      stderr_search lib r p = Inr (Some (py_str g)))"
  by (simp add: search_def stderr_search_def assert_search_def search_in_no_match search_in_match)

lemma py_re_search_version:
  "py_re_search ''Version ([0-9.-]+)\<newline>'' ''Android Debug Bridge version 1.0.41\<newline>Version 33.0.3-8952118\<newline>''
     = Inr (Some (Match ''Version 33.0.3-8952118\<newline>'' [Some ''33.0.3-8952118'']))"
  by code_simp

lemma py_re_search_version_none:
  "py_re_search ''Version ([0-9.-]+)\<newline>'' ''fastboot version 33.0.3-8952118\<newline>'' = Inr None"
  by code_simp

theorem search_first_group_witness:
  "search python (CommandResult [''adb'', ''--version'']
       \<lparr>returncode = 0, stdout = ''Android Debug Bridge version 1.0.41\<newline>Version 33.0.3-8952118\<newline>'', stderr = ''''\<rparr>)
       ''Version ([0-9.-]+)\<newline>'' = Inr (Some ''33.0.3-8952118'')
   \<and> search python (CommandResult [''fastboot'', ''--version'']
       \<lparr>returncode = 0, stdout = ''fastboot version 33.0.3-8952118\<newline>'', stderr = ''''\<rparr>)
       ''Version ([0-9.-]+)\<newline>'' = Inr None
   \<and> isl (assert_search python (CommandResult [''fastboot'', ''--version'']
       \<lparr>returncode = 0, stdout = ''fastboot version 33.0.3-8952118\<newline>'', stderr = ''''\<rparr>)
       ''Version ([0-9.-]+)\<newline>'')"
proof -
  let ?p = "''Version ([0-9.-]+)\<newline>''"
  let ?r = "CommandResult [''adb'', ''--version'']
       \<lparr>returncode = 0, stdout = ''Android Debug Bridge version 1.0.41\<newline>Version 33.0.3-8952118\<newline>'', stderr = ''''\<rparr>"
  let ?q = "CommandResult [''fastboot'', ''--version'']
       \<lparr>returncode = 0, stdout = ''fastboot version 33.0.3-8952118\<newline>'', stderr = ''''\<rparr>"
  have a: "re_search python ?p (stdout (completed_proc ?r))
      = Inr (Some (Match ''Version 33.0.3-8952118\<newline>'' (Some ''33.0.3-8952118'' # [])))"
    by (simp add: python_def CommandResult_def py_re_search_version)
  have b: "re_search python ?p (stdout (completed_proc ?q)) = Inr None"
    by (simp add: python_def CommandResult_def py_re_search_version_none)
  from search_first_group [of python ?p ?r "''Version 33.0.3-8952118\<newline>''" "Some ''33.0.3-8952118''" "[]"] a
  have "search python ?r ?p = Inr (Some ''33.0.3-8952118'')" by simp
  moreover from search_first_group [of python ?p ?q] b
  have "search python ?q ?p = Inr None \<and> isl (assert_search python ?q ?p)" by simp
  ultimately show ?thesis by blast
qed

lemma json_message_not_failure: "json_message r msg \<noteq> failure_message r'"
  by (simp add: json_message_def failure_message_def)

lemma json_message_not_success: "json_message r msg \<noteq> not_success_message r"
  by (simp add: json_message_def not_success_message_def)

lemma json_message_ends: "\<exists>text. json_message r msg = text @ msg"
  by (simp add: json_message_def)

lemma loads_empty_object: "py_json_loads ''{}'' = Inr (JObj [])"
  by code_simp

lemma loads_not_json: "py_json_loads ''mfg: not found'' = Inl ''Expecting value''"
  by code_simp

lemma loads_success: "py_json_loads ''{\"status\":\"Success\"}'' = Inr (JObj [(''status'', JStr ''Success'')])"
  by code_simp

lemma loads_fail: "py_json_loads ''{\"status\":\"Fail\"}'' = Inr (JObj [(''status'', JStr ''Fail'')])"
  by code_simp

text \<open>
  Claim C2 fails in its first part: \<^verbatim>\<open>assert_json\<close> does not look at the exit code. A
  command that failed with exit code 1 and printed \<open>{}\<close> passes it, and the document is
  stored.
\<close>

theorem assert_json_ignores_exit_code:
  "\<not> succeeded (CommandResult [''adb'', ''shell'', ''mfg''] \<lparr>returncode = 1, stdout = ''{}'', stderr = ''''\<rparr>)
   \<and> assert_json python (CommandResult [''adb'', ''shell'', ''mfg''] \<lparr>returncode = 1, stdout = ''{}'', stderr = ''''\<rparr>)
       = Inr \<lparr>command = [''adb'', ''shell'', ''mfg''],
              completed_proc = \<lparr>returncode = 1, stdout = ''{}'', stderr = ''''\<rparr>,
              json_data = Some (JObj [])\<rparr>"
  by (simp add: assert_json_def succeeded_def CommandResult_def python_def loads_empty_object)

text \<open>
  Claim C2, amended. Whatever the exit code, \<^verbatim>\<open>assert_json\<close> parses stdout: a document is
  stored in \<^verbatim>\<open>json_data\<close>, nothing else of the result changing; a text that does not parse
  raises \<^verbatim>\<open>ADBAssertionError\<close> with the JSON message, which ends with the parser's message
  and is neither the failure message of \<^verbatim>\<open>assert_succeeded\<close> nor the message of a
  manufacturing command that did not report success.
\<close>

theorem assert_json_parses_stdout:
  "(json_loads lib (stdout (completed_proc r)) = Inr doc \<longrightarrow>
      assert_json lib r = Inr (r\<lparr>json_data := Some doc\<rparr>))
   \<and> (json_loads lib (stdout (completed_proc r)) = Inl msg \<longrightarrow>
      assert_json lib r = Inl (ADBAssertionError (json_message r msg))
      \<and> (\<exists>text. json_message r msg = text @ msg)
      \<and> json_message r msg \<noteq> failure_message r
      \<and> json_message r msg \<noteq> not_success_message r)"
  using json_message_ends [of r msg]
  by (simp add: assert_json_def json_message_not_failure json_message_not_success)

theorem assert_json_parses_stdout_witness:
  "assert_json python (CommandResult [''adb'', ''shell'', ''mfg''] \<lparr>returncode = 0, stdout = ''{}'', stderr = ''''\<rparr>)
     = Inr \<lparr>command = [''adb'', ''shell'', ''mfg''],
            completed_proc = \<lparr>returncode = 0, stdout = ''{}'', stderr = ''''\<rparr>,
            json_data = Some (JObj [])\<rparr>
   \<and> assert_json python (CommandResult [''adb'', ''shell'', ''mfg'']
         \<lparr>returncode = 0, stdout = ''mfg: not found'', stderr = ''''\<rparr>)
     = Inl (ADBAssertionError (json_message (CommandResult [''adb'', ''shell'', ''mfg'']
         \<lparr>returncode = 0, stdout = ''mfg: not found'', stderr = ''''\<rparr>) ''Expecting value''))"
proof -
  let ?r = "CommandResult [''adb'', ''shell'', ''mfg''] \<lparr>returncode = 0, stdout = ''{}'', stderr = ''''\<rparr>"
  let ?q = "CommandResult [''adb'', ''shell'', ''mfg''] \<lparr>returncode = 0, stdout = ''mfg: not found'', stderr = ''''\<rparr>"
  have a: "json_loads python (stdout (completed_proc ?r)) = Inr (JObj [])"
    by (simp add: python_def CommandResult_def loads_empty_object)
  have b: "json_loads python (stdout (completed_proc ?q)) = Inl ''Expecting value''"
    by (simp add: python_def CommandResult_def loads_not_json)
  from assert_json_parses_stdout [of python ?r "JObj []"] a
  have "assert_json python ?r = Inr (?r\<lparr>json_data := Some (JObj [])\<rparr>)" by blast
  moreover from assert_json_parses_stdout [of python ?q _ "''Expecting value''"] b
  have "assert_json python ?q = Inl (ADBAssertionError (json_message ?q ''Expecting value''))" by blast
  ultimately show ?thesis by (simp add: CommandResult_def)
qed

text \<open>
  Claim C5. For a command that succeeded, \<^verbatim>\<open>assert_mfg_succeeded\<close> returns when the document
  has the status \<open>Success\<close>; with another status it raises \<^verbatim>\<open>ADBAssertionError\<close> with a
  message that ends with stdout as printed; when stdout does not parse it raises with the
  JSON message, which is not the former one. The three examples of the specification are
  evaluated with the reference decoder.
\<close>

theorem assert_mfg_succeeded_cases:
  "(succeeded r \<and> json_loads lib (stdout (completed_proc r)) = Inr doc
      \<and> py_getitem doc ''status'' = Inr (JStr ''Success'') \<longrightarrow>
      assert_mfg_succeeded lib r = Inr (r\<lparr>json_data := Some doc\<rparr>))
   \<and> (succeeded r \<and> json_loads lib (stdout (completed_proc r)) = Inr doc
      \<and> py_getitem doc ''status'' = Inr v \<and> v \<noteq> JStr ''Success'' \<longrightarrow>
      assert_mfg_succeeded lib r = Inl (ADBAssertionError (not_success_message r))
      \<and> (\<exists>text. not_success_message r = text @ stdout (completed_proc r)))
   \<and> (succeeded r \<and> json_loads lib (stdout (completed_proc r)) = Inl msg \<longrightarrow>
      assert_mfg_succeeded lib r = Inl (ADBAssertionError (json_message r msg))
      \<and> json_message r msg \<noteq> not_success_message r)
   \<and> assert_mfg_succeeded python (CommandResult cmd \<lparr>returncode = 0, stdout = ''{\"status\":\"Success\"}'', stderr = err\<rparr>)
       = Inr \<lparr>command = cmd,
              completed_proc = \<lparr>returncode = 0, stdout = ''{\"status\":\"Success\"}'', stderr = err\<rparr>,
              json_data = Some (JObj [(''status'', JStr ''Success'')])\<rparr>
   \<and> assert_mfg_succeeded python (CommandResult cmd \<lparr>returncode = 0, stdout = ''{\"status\":\"Fail\"}'', stderr = err\<rparr>)
       = Inl (ADBAssertionError (''FAILED: '' @ sq @ py_join '' '' cmd @ sq @ '' didn'' @ sq @ ''t report '' @ sq
                @ ''Success'' @ sq @ '', JSON:\<newline>'' @ ''{\"status\":\"Fail\"}''))
   \<and> assert_mfg_succeeded python (CommandResult cmd \<lparr>returncode = 0, stdout = ''mfg: not found'', stderr = err\<rparr>)
       = Inl (ADBAssertionError (json_message
           (CommandResult cmd \<lparr>returncode = 0, stdout = ''mfg: not found'', stderr = err\<rparr>) ''Expecting value''))"
proof (intro conjI impI)
  assume "succeeded r \<and> json_loads lib (stdout (completed_proc r)) = Inr doc
      \<and> py_getitem doc ''status'' = Inr (JStr ''Success'')"
  then show "assert_mfg_succeeded lib r = Inr (r\<lparr>json_data := Some doc\<rparr>)"
    by (simp add: assert_mfg_succeeded_def assert_succeeded_def assert_json_def)
next
  assume a: "succeeded r \<and> json_loads lib (stdout (completed_proc r)) = Inr doc
      \<and> py_getitem doc ''status'' = Inr v \<and> v \<noteq> JStr ''Success''"
  then show "assert_mfg_succeeded lib r = Inl (ADBAssertionError (not_success_message r))"
    by (simp add: assert_mfg_succeeded_def assert_succeeded_def assert_json_def
        not_success_message_def command_str_def)
  show "\<exists>text. not_success_message r = text @ stdout (completed_proc r)"
    by (simp add: not_success_message_def)
next
  assume "succeeded r \<and> json_loads lib (stdout (completed_proc r)) = Inl msg"
  then show "assert_mfg_succeeded lib r = Inl (ADBAssertionError (json_message r msg))"
    by (simp add: assert_mfg_succeeded_def assert_succeeded_def assert_json_def)
  show "json_message r msg \<noteq> not_success_message r" by (rule json_message_not_success)
next
  show "assert_mfg_succeeded python (CommandResult cmd \<lparr>returncode = 0, stdout = ''{\"status\":\"Success\"}'', stderr = err\<rparr>)
       = Inr \<lparr>command = cmd,
              completed_proc = \<lparr>returncode = 0, stdout = ''{\"status\":\"Success\"}'', stderr = err\<rparr>,
              json_data = Some (JObj [(''status'', JStr ''Success'')])\<rparr>"
    by (simp add: assert_mfg_succeeded_def assert_succeeded_def succeeded_def assert_json_def
        CommandResult_def python_def loads_success)
next
  show "assert_mfg_succeeded python (CommandResult cmd \<lparr>returncode = 0, stdout = ''{\"status\":\"Fail\"}'', stderr = err\<rparr>)
       = Inl (ADBAssertionError (''FAILED: '' @ sq @ py_join '' '' cmd @ sq @ '' didn'' @ sq @ ''t report '' @ sq
                @ ''Success'' @ sq @ '', JSON:\<newline>'' @ ''{\"status\":\"Fail\"}''))"
    by (simp add: assert_mfg_succeeded_def assert_succeeded_def succeeded_def assert_json_def
        CommandResult_def python_def loads_fail not_success_message_def command_str_def)
next
  show "assert_mfg_succeeded python (CommandResult cmd \<lparr>returncode = 0, stdout = ''mfg: not found'', stderr = err\<rparr>)
       = Inl (ADBAssertionError (json_message
           (CommandResult cmd \<lparr>returncode = 0, stdout = ''mfg: not found'', stderr = err\<rparr>) ''Expecting value''))"
    by (simp add: assert_mfg_succeeded_def assert_succeeded_def succeeded_def assert_json_def
        CommandResult_def python_def loads_not_json)
qed

lemma loads_two_fields:
  "py_json_loads ''{\"status\": \"Success\", \"leds\": [1, 2]}''
     = Inr (JObj [(''status'', JStr ''Success''), (''leds'', JArr [JInt 1, JInt 2])])"
  by code_simp

theorem assert_mfg_succeeded_cases_witness:
  "assert_mfg_succeeded python (CommandResult [''adb'', ''-s'', ''N1'', ''shell'', ''mfg'', ''led'', ''probe'']
       \<lparr>returncode = 0, stdout = ''{\"status\": \"Success\", \"leds\": [1, 2]}'', stderr = ''''\<rparr>)
     = Inr \<lparr>command = [''adb'', ''-s'', ''N1'', ''shell'', ''mfg'', ''led'', ''probe''],
            completed_proc = \<lparr>returncode = 0, stdout = ''{\"status\": \"Success\", \"leds\": [1, 2]}'', stderr = ''''\<rparr>,
            json_data = Some (JObj [(''status'', JStr ''Success''), (''leds'', JArr [JInt 1, JInt 2])])\<rparr>"
proof -
  let ?r = "CommandResult [''adb'', ''-s'', ''N1'', ''shell'', ''mfg'', ''led'', ''probe'']
       \<lparr>returncode = 0, stdout = ''{\"status\": \"Success\", \"leds\": [1, 2]}'', stderr = ''''\<rparr>"
  let ?doc = "JObj [(''status'', JStr ''Success''), (''leds'', JArr [JInt 1, JInt 2])]"
  have a: "succeeded ?r \<and> json_loads python (stdout (completed_proc ?r)) = Inr ?doc
      \<and> py_getitem ?doc ''status'' = Inr (JStr ''Success'')"
    by (simp add: succeeded_def python_def CommandResult_def loads_two_fields)
  from assert_mfg_succeeded_cases [of ?r python ?doc] a
  have "assert_mfg_succeeded python ?r = Inr (?r\<lparr>json_data := Some ?doc\<rparr>)" by blast
  then show ?thesis by (simp add: CommandResult_def)
qed

section \<open>Properties of sessions\<close>

lemmas monad_defs = returnM_def raiseM_def liftE_def bindM_def thenM_def getM_def setM_def catchM_def

lemma run_cli_command_apply:
  "run_cli_command h cmd n (s, t) =
     (case subprocess_run h t cmd n of
        None \<Rightarrow> (Inl (TimeoutExpired cmd), (s, t @ [cmd]))
      | Some cp \<Rightarrow> (Inr (CommandResult cmd cp), (s, t @ [cmd])))"
  by (simp add: run_cli_command_def)

lemma run_command_apply:
  "run_command h cmd n (s, t) =
     (case device_serial s of
        None \<Rightarrow> (Inl (TypeError ''expected str, bytes or os.PathLike object, not NoneType''), (s, t))
      | Some sn \<Rightarrow> run_cli_command h (ADB_PATH h # ''-s'' # sn # cmd) n (s, t))"
  by (simp add: run_command_def with_serial_def monad_defs split: option.splits)

lemma run_command_session: "fst (snd (run_command h cmd n (s, t))) = s"
  by (simp add: run_command_apply run_cli_command_apply split: option.splits)

lemma run_shell_command_session: "fst (snd (run_shell_command h cmd n (s, t))) = s"
  by (simp add: run_shell_command_def run_command_session)

lemma is_factory_mode_session: "fst (snd (is_factory_mode lib h (s, t))) = s"
proof -
  obtain r s' t' where eq: "run_shell_command h [''cat'', ''/proc/cmdline''] 10 (s, t) = (r, (s', t'))"
    by (metis prod.collapse)
  with run_shell_command_session [of h "[''cat'', ''/proc/cmdline'']" 10 s t] have "s' = s" by simp
  with eq show ?thesis
    by (simp add: is_factory_mode_def monad_defs split: sum.splits)
qed

lemma is_factory_mode_unrooted:
  "\<not> root s \<Longrightarrow> is_factory_mode lib h (s, t) = (Inr False, (s, t))"
  by (simp add: is_factory_mode_def monad_defs)

lemma neo_on_root_root: "root (fst (snd (neo_on_root lib h (s, t)))) = root s"
proof -
  obtain r s' t' where eq: "is_factory_mode lib h (s, t) = (r, (s', t'))"
    by (metis prod.collapse)
  with is_factory_mode_session [of lib h s t] have "s' = s" by simp
  with eq show ?thesis
    by (simp add: neo_on_root_def on_root_def monad_defs split: sum.splits)
qed

lemma assert_root_rooted: "root s \<Longrightarrow> assert_root hook h (s, t) = (Inr (), (s, t))"
  by (simp add: assert_root_def monad_defs)

lemma assert_root_returns_rooted:
  assumes hook: "\<And>s t. root (fst (snd (hook (s, t)))) = root s"
    and ret: "assert_root hook h (s, t) = (Inr x, (s', t'))"
  shows "root s'"
proof (cases "root s")
  case True
  with ret show ?thesis by (simp add: assert_root_rooted)
next
  case False
  obtain r s1 t1 where eq: "run_command h [''root''] 10 (s, t) = (r, (s1, t1))"
    by (metis prod.collapse)
  with run_command_session [of h "[''root'']" 10 s t] have s1: "s1 = s" by simp
  from False ret eq s1 obtain res where "r = Inr res" "succeeded res"
    and h: "hook (s\<lparr>root := True\<rparr>, t1) = (Inr x, (s', t'))"
    by (auto simp: assert_root_def monad_defs assert_succeeded_def split: sum.splits if_splits)
  from hook [of "s\<lparr>root := True\<rparr>" t1] h show ?thesis by simp
qed

lemma assert_root_twice:
  assumes hook: "\<And>s t. root (fst (snd (hook (s, t)))) = root s"
  shows "thenM (assert_root hook h) (assert_root hook h) (s, t) = assert_root hook h (s, t)"
proof -
  obtain r s' t' where eq: "assert_root hook h (s, t) = (r, (s', t'))"
    by (metis prod.collapse)
  show ?thesis
  proof (cases r)
    case (Inl e)
    with eq show ?thesis by (simp add: thenM_def bindM_def)
  next
    case (Inr x)
    with eq assert_root_returns_rooted [OF hook, of h s t x s' t'] have "root s'" by simp
    with eq Inr show ?thesis by (simp add: thenM_def bindM_def assert_root_rooted)
  qed
qed

lemma run_command_trace:
  "snd (snd (run_command h cmd n (s, t))) =
     (case device_serial s of None \<Rightarrow> t | Some sn \<Rightarrow> t @ [ADB_PATH h # ''-s'' # sn # cmd])"
  by (simp add: run_command_apply run_cli_command_apply split: option.splits)

lemma is_factory_mode_escalations:
  "escalations (snd (snd (is_factory_mode lib h (s, t)))) = escalations t"
proof (cases "root s")
  case False
  then show ?thesis by (simp add: is_factory_mode_unrooted)
next
  case True
  obtain r s' t' where eq: "run_shell_command h [''cat'', ''/proc/cmdline''] 10 (s, t) = (r, (s', t'))"
    by (metis prod.collapse)
  with run_command_trace [of h "[''shell'', ''cat'', ''/proc/cmdline'']" 10 s t]
  have "t' = (case device_serial s of None \<Rightarrow> t
      | Some sn \<Rightarrow> t @ [ADB_PATH h # ''-s'' # sn # [''shell'', ''cat'', ''/proc/cmdline'']])"
    by (simp add: run_shell_command_def)
  then have "escalations t' = escalations t"
    by (simp add: escalations_def split: option.splits)
  with eq True show ?thesis
    by (simp add: is_factory_mode_def monad_defs split: sum.splits)
qed

lemma neo_on_root_escalations:
  "escalations (snd (snd (neo_on_root lib h (s, t)))) = escalations t"
proof -
  obtain r s' t' where eq: "is_factory_mode lib h (s, t) = (r, (s', t'))"
    by (metis prod.collapse)
  with is_factory_mode_escalations [of lib h s t] have "escalations t' = escalations t" by simp
  with eq show ?thesis
    by (simp add: neo_on_root_def on_root_def monad_defs split: sum.splits)
qed

lemma assert_root_escalations:
  assumes hook: "\<And>s t. escalations (snd (snd (hook (s, t)))) = escalations t"
  shows "escalations (snd (snd (assert_root hook h (s, t)))) \<le> escalations t + 1"
proof (cases "root s")
  case True
  then show ?thesis by (simp add: assert_root_rooted)
next
  case False
  obtain r s1 t1 where eq: "run_command h [''root''] 10 (s, t) = (r, (s1, t1))"
    by (metis prod.collapse)
  with run_command_trace [of h "[''root'']" 10 s t]
  have "t1 = (case device_serial s of None \<Rightarrow> t | Some sn \<Rightarrow> t @ [ADB_PATH h # ''-s'' # sn # [''root'']])"
    by simp
  then have t1: "escalations t1 \<le> escalations t + 1"
    by (simp add: escalations_def split: option.splits)
  show ?thesis
  proof (cases r)
    case (Inl e)
    with False eq t1 show ?thesis by (simp add: assert_root_def monad_defs)
  next
    case (Inr res)
    show ?thesis
    proof (cases "succeeded res")
      case ok: True
      with False eq Inr have "assert_root hook h (s, t) = hook (s1\<lparr>root := True\<rparr>, t1)"
        by (simp add: assert_root_def monad_defs assert_succeeded_def)
      with hook [of "s1\<lparr>root := True\<rparr>" t1] t1 show ?thesis by simp
    next
      case bad: False
      with False eq Inr t1 show ?thesis
        by (simp add: assert_root_def monad_defs assert_succeeded_def)
    qed
  qed
qed

lemma on_root_facts:
  "root (fst (snd (on_root (s, t)))) = root s" "escalations (snd (snd (on_root (s, t)))) = escalations t"
  by (simp_all add: on_root_def returnM_def)

lemma example_root_once:
  "neo_assert_root python evt1_device (NeoADBSession\<lparr>device_serial := Some ''N1''\<rparr>, [])
   = (Inr (), (NeoADBSession\<lparr>device_serial := Some ''N1'', root := True, factory_mode := True\<rparr>,
        [[''adb'', ''-s'', ''N1'', ''root''], [''adb'', ''-s'', ''N1'', ''shell'', ''cat'', ''/proc/cmdline'']]))"
  by code_simp

text \<open>
  Claim C4. \<^verbatim>\<open>assert_root\<close> on a session whose \<^verbatim>\<open>root\<close> flag is set returns at once: the
  session and the commands run are as before. Two calls in succession do exactly what one
  call does, the second running only when the first has returned, and together they run
  \<open>adb root\<close> at most once. This holds for a Neo session (whose \<^verbatim>\<open>on_root\<close> refreshes
  the factory mode) and for a plain \<^verbatim>\<open>ADBSession\<close>.
\<close>

theorem assert_root_idempotent:
  "(root s \<longrightarrow> neo_assert_root lib h (s, t) = (Inr (), (s, t)))
   \<and> thenM (neo_assert_root lib h) (neo_assert_root lib h) (s, t) = neo_assert_root lib h (s, t)
   \<and> escalations (snd (snd (thenM (neo_assert_root lib h) (neo_assert_root lib h) (s, t)))) \<le> escalations t + 1
   \<and> (root a \<longrightarrow> assert_root on_root h (a, t) = (Inr (), (a, t)))
   \<and> thenM (assert_root on_root h) (assert_root on_root h) (a, t) = assert_root on_root h (a, t)
   \<and> escalations (snd (snd (thenM (assert_root on_root h) (assert_root on_root h) (a, t)))) \<le> escalations t + 1"
proof (intro conjI impI)
  assume "root s"
  then show "neo_assert_root lib h (s, t) = (Inr (), (s, t))"
    by (simp add: neo_assert_root_def assert_root_rooted)
next
  show twice: "thenM (neo_assert_root lib h) (neo_assert_root lib h) (s, t) = neo_assert_root lib h (s, t)"
    unfolding neo_assert_root_def by (rule assert_root_twice) (rule neo_on_root_root)
  show "escalations (snd (snd (thenM (neo_assert_root lib h) (neo_assert_root lib h) (s, t)))) \<le> escalations t + 1"
    unfolding twice unfolding neo_assert_root_def
    by (rule assert_root_escalations) (rule neo_on_root_escalations)
next
  assume "root a"
  then show "assert_root on_root h (a, t) = (Inr (), (a, t))" by (rule assert_root_rooted)
next
  show twice: "thenM (assert_root on_root h) (assert_root on_root h) (a, t) = assert_root on_root h (a, t)"
    by (rule assert_root_twice) (rule on_root_facts)
  show "escalations (snd (snd (thenM (assert_root on_root h) (assert_root on_root h) (a, t)))) \<le> escalations t + 1"
    unfolding twice by (rule assert_root_escalations) (rule on_root_facts)
qed

theorem assert_root_idempotent_witness:
  "neo_assert_root python evt1_device (NeoADBSession\<lparr>device_serial := Some ''N1'', root := True\<rparr>, [])
     = (Inr (), (NeoADBSession\<lparr>device_serial := Some ''N1'', root := True\<rparr>, []))
   \<and> thenM (neo_assert_root python evt1_device) (neo_assert_root python evt1_device)
        (NeoADBSession\<lparr>device_serial := Some ''N1''\<rparr>, [])
     = (Inr (), (NeoADBSession\<lparr>device_serial := Some ''N1'', root := True, factory_mode := True\<rparr>,
        [[''adb'', ''-s'', ''N1'', ''root''], [''adb'', ''-s'', ''N1'', ''shell'', ''cat'', ''/proc/cmdline'']]))"
proof -
  have r: "root (NeoADBSession\<lparr>device_serial := Some ''N1'', root := True\<rparr>)" by simp
  from assert_root_idempotent [of "NeoADBSession\<lparr>device_serial := Some ''N1'', root := True\<rparr>" python evt1_device "[]"] r
  have a: "neo_assert_root python evt1_device (NeoADBSession\<lparr>device_serial := Some ''N1'', root := True\<rparr>, [])
     = (Inr (), (NeoADBSession\<lparr>device_serial := Some ''N1'', root := True\<rparr>, []))" by blast
  from assert_root_idempotent [of "NeoADBSession\<lparr>device_serial := Some ''N1''\<rparr>" python evt1_device "[]"]
  have "thenM (neo_assert_root python evt1_device) (neo_assert_root python evt1_device)
        (NeoADBSession\<lparr>device_serial := Some ''N1''\<rparr>, [])
      = neo_assert_root python evt1_device (NeoADBSession\<lparr>device_serial := Some ''N1''\<rparr>, [])" by blast
  with example_root_once a show ?thesis by simp
qed

subsection \<open>What a refresh leaves alone\<close>

lemma frames_bindM:
  assumes "transp F" "frames F m" "\<And>x. frames F (f x)"
  shows "frames F (bindM m f)"
  unfolding frames_def
proof (intro allI)
  fix s t
  obtain r s1 t1 where eq: "m (s, t) = (r, (s1, t1))" by (metis prod.collapse)
  with assms(2) have a: "F s s1" unfolding frames_def by (metis fst_conv snd_conv)
  show "F s (fst (snd (bindM m f (s, t))))"
  proof (cases r)
    case (Inl e)
    with eq a show ?thesis by (simp add: bindM_def)
  next
    case (Inr x)
    from assms(3) [of x] have "F s1 (fst (snd (f x (s1, t1))))" unfolding frames_def by blast
    with a assms(1) have "F s (fst (snd (f x (s1, t1))))" by (meson transpD)
    with eq Inr show ?thesis by (simp add: bindM_def)
  qed
qed

lemma frames_failure_bindM:
  assumes "transp F" "frames F m" "\<And>x. frames_failure F (f x)"
  shows "frames_failure F (bindM m f)"
  unfolding frames_failure_def
proof (intro allI impI)
  fix s t
  assume fails: "isl (fst (bindM m f (s, t)))"
  obtain r s1 t1 where eq: "m (s, t) = (r, (s1, t1))" by (metis prod.collapse)
  with assms(2) have a: "F s s1" unfolding frames_def by (metis fst_conv snd_conv)
  show "F s (fst (snd (bindM m f (s, t))))"
  proof (cases r)
    case (Inl e)
    with eq a show ?thesis by (simp add: bindM_def)
  next
    case (Inr x)
    with eq fails have "isl (fst (f x (s1, t1)))" by (simp add: bindM_def)
    with assms(3) [of x] have "F s1 (fst (snd (f x (s1, t1))))" unfolding frames_failure_def by blast
    with a assms(1) have "F s (fst (snd (f x (s1, t1))))" by (meson transpD)
    with eq Inr show ?thesis by (simp add: bindM_def)
  qed
qed

lemma frames_pure:
  assumes "reflp F"
  shows "frames F (returnM x)" "frames F (raiseM e)" "frames F (liftE r)" "frames F (getM g)"
  using assms by (simp_all add: frames_def monad_defs reflpD)

lemma frames_setM: "(\<And>s. F s (upd s)) \<Longrightarrow> frames F (setM upd)"
  by (simp add: frames_def setM_def)

lemma frames_run_command: "reflp F \<Longrightarrow> frames F (run_command h cmd n)"
  unfolding frames_def by (simp add: run_command_session reflpD)

lemma frames_run_shell_command: "reflp F \<Longrightarrow> frames F (run_shell_command h cmd n)"
  unfolding frames_def by (simp add: run_shell_command_session reflpD)

lemma frames_shell_readers:
  assumes "reflp F" "transp F"
  shows "frames F (assert_string_cmd h cmd)" "frames F (assert_log_shell_command h cmd)"
    "frames F (assert_file_int h file)" "frames F (assert_get_prop h prop)"
    "frames F (assert_log_prop h prop)" "frames F (is_root h)" "frames F (is_remounted lib h)"
    "frames F (assert_succeeded_cmd h cmd n)"
  unfolding assert_string_cmd_def assert_log_shell_command_def assert_file_int_def assert_get_prop_def
    assert_log_prop_def is_root_def is_remounted_def assert_succeeded_cmd_def
  by (intro frames_bindM frames_run_shell_command frames_pure assms)+

lemma frames_is_factory_mode: "reflp F \<Longrightarrow> frames F (is_factory_mode lib h)"
  unfolding frames_def by (simp add: is_factory_mode_session reflpD)

lemma identity_kept_order: "reflp identity_kept" "transp identity_kept"
  by (auto simp: identity_kept_def reflp_def transp_def)

lemma frames_refresh_device_state: "frames identity_kept (refresh_device_state lib h)"
  unfolding refresh_device_state_def
  by (intro frames_bindM frames_setM frames_shell_readers identity_kept_order)
     (simp_all add: identity_kept_def)

lemma frames_if: "frames F a \<Longrightarrow> frames F b \<Longrightarrow> frames F (if c then a else b)"
  by simp

lemma frames_failure_if:
  "frames_failure F a \<Longrightarrow> frames_failure F b \<Longrightarrow> frames_failure F (if c then a else b)"
  by simp

lemma frames_failure_setM: "frames_failure F (setM upd)"
  by (simp add: frames_failure_def setM_def)

lemma frames_failure_catchM:
  assumes "transp F" "frames_failure F m" "\<And>e. frames F (handler e)"
  shows "frames_failure F (catchM m caught handler)"
  unfolding frames_failure_def
proof (intro allI impI)
  fix s t
  assume fails: "isl (fst (catchM m caught handler (s, t)))"
  obtain r s1 t1 where eq: "m (s, t) = (r, (s1, t1))" by (metis prod.collapse)
  show "F s (fst (snd (catchM m caught handler (s, t))))"
  proof (cases r)
    case (Inr x)
    with eq fails show ?thesis by (simp add: catchM_def)
  next
    case (Inl e)
    with eq assms(2) have a: "F s s1" unfolding frames_failure_def by (metis fst_conv snd_conv isl_def)
    show ?thesis
    proof (cases "caught e")
      case False
      with eq Inl a show ?thesis by (simp add: catchM_def)
    next
      case True
      from assms(3) [of e] have "F s1 (fst (snd (handler e (s1, t1))))" unfolding frames_def by blast
      with a assms(1) have "F s (fst (snd (handler e (s1, t1))))" by (meson transpD)
      with eq Inl True show ?thesis by (simp add: catchM_def)
    qed
  qed
qed

lemma DeviceType_of_error: "DeviceType_of v = Inl e \<Longrightarrow> \<not> is_KeyError e"
  by (auto simp: DeviceType_of_def split: if_splits)

lemma BoardType_of_error: "BoardType_of v = Inl e \<Longrightarrow> \<not> is_KeyError e"
  by (auto simp: BoardType_of_def split: option.splits)

lemma resolve_identity_unknown_name:
  assumes "DeviceType_of (device_name s) = Inl e"
  shows "resolve_identity h (s, t) = (Inl e, (s, t))"
  using assms DeviceType_of_error [OF assms]
  by (simp add: resolve_identity_def monad_defs)

lemma resolve_identity_unknown_board:
  assumes "DeviceType_of (device_name s) = Inr dt" "root s"
    and "assert_file_int h bt_file (s\<lparr>device_type := Some dt\<rparr>, t) = (Inr v, (s1, t1))"
    and "map_of BoardType_table v = None"
  shows "isl (fst (resolve_identity h (s, t)))"
    and "snd (resolve_identity h (s, t)) = (s\<lparr>device_type := Some dt\<rparr>, t1)"
proof -
  have "frames (=) (assert_file_int h bt_file :: (neo_session, int) action)"
    by (intro frames_shell_readers) (simp_all add: reflp_def transp_def)
  then have "fst (snd (assert_file_int h bt_file (s\<lparr>device_type := Some dt\<rparr>, t))) = s\<lparr>device_type := Some dt\<rparr>"
    unfolding frames_def by metis
  with assms(3) have s1: "s1 = s\<lparr>device_type := Some dt\<rparr>" by simp
  from assms(4) obtain e where e: "BoardType_of v = Inl e"
    by (auto simp: BoardType_of_def)
  then have "\<not> is_KeyError e" by (rule BoardType_of_error)
  with assms(1,2,3) e s1 have "resolve_identity h (s, t) = (Inl e, (s\<lparr>device_type := Some dt\<rparr>, t1))"
    by (simp add: resolve_identity_def monad_defs)
  then show "isl (fst (resolve_identity h (s, t)))"
    and "snd (resolve_identity h (s, t)) = (s\<lparr>device_type := Some dt\<rparr>, t1)"
    by simp_all
qed

lemma frames_failure_resolve_identity: "frames_failure identity_kept (resolve_identity h)"
  unfolding resolve_identity_def
  by (intro frames_failure_catchM frames_failure_bindM frames_failure_if frames_failure_setM
      frames_bindM frames_setM frames_shell_readers frames_pure identity_kept_order)
     (simp_all add: identity_kept_def)

lemma frames_failure_neo_refresh: "frames_failure identity_kept (neo_refresh_device_state lib h)"
  unfolding neo_refresh_device_state_def
  by (intro frames_failure_bindM frames_failure_resolve_identity frames_if
      frames_bindM frames_setM frames_shell_readers frames_pure identity_kept_order
      frames_refresh_device_state frames_is_factory_mode)
     (simp_all add: identity_kept_def)

lemma bindM_returns:
  assumes "bindM m f st = (Inr y, st2)"
  obtains x st1 where "m st = (Inr x, st1)" "f x st1 = (Inr y, st2)"
proof -
  obtain r st1 where eq: "m st = (r, st1)" by (metis prod.collapse)
  with assms obtain x where "r = Inr x" by (cases r) (auto simp: bindM_def)
  with eq assms that show ?thesis by (simp add: bindM_def)
qed

lemma frames_catchM:
  assumes "transp F" "frames F m" "\<And>e. frames F (handler e)"
  shows "frames F (catchM m caught handler)"
  unfolding frames_def
proof (intro allI)
  fix s t
  obtain r s1 t1 where eq: "m (s, t) = (r, (s1, t1))" by (metis prod.collapse)
  with assms(2) have a: "F s s1" unfolding frames_def by (metis fst_conv snd_conv)
  show "F s (fst (snd (catchM m caught handler (s, t))))"
  proof (cases r)
    case (Inr x)
    with eq a show ?thesis by (simp add: catchM_def)
  next
    case (Inl e)
    show ?thesis
    proof (cases "caught e")
      case False
      with eq Inl a show ?thesis by (simp add: catchM_def)
    next
      case True
      from assms(3) [of e] have "F s1 (fst (snd (handler e (s1, t1))))" unfolding frames_def by blast
      with a assms(1) have "F s (fst (snd (handler e (s1, t1))))" by (meson transpD)
      with eq Inl True show ?thesis by (simp add: catchM_def)
    qed
  qed
qed

lemma mode_kept_order: "reflp mode_kept" "transp mode_kept"
  by (auto simp: mode_kept_def reflp_def transp_def)

lemma frames_mode_resolve_identity: "frames mode_kept (resolve_identity h)"
  unfolding resolve_identity_def
  by (intro frames_catchM frames_bindM frames_if frames_setM frames_shell_readers frames_pure
      mode_kept_order)
     (simp_all add: mode_kept_def)

lemma refresh_unrooted_not_factory:
  assumes ret: "neo_refresh_device_state lib h (s, t) = (Inr x, (s', t'))" and unrooted: "\<not> root s'"
  shows "\<not> factory_mode s'"
proof -
  from ret [unfolded neo_refresh_device_state_def]
  obtain u st1 where "refresh_device_state lib h (s, t) = (Inr u, st1)"
    and rest1: "bindM (is_factory_mode lib h) (\<lambda>v.
       bindM (setM (\<lambda>s. s\<lparr>factory_mode := v\<rparr>)) (\<lambda>_.
       bindM (assert_log_prop h ''ro.product.device'') (\<lambda>_.
       bindM (assert_log_prop h ''ro.build.flavor'') (\<lambda>_.
       bindM (assert_log_prop h ''ro.build.fingerprint'') (\<lambda>_.
       bindM (assert_log_shell_command h [''uname'', ''-a'']) (\<lambda>_.
       bindM (getM root) (\<lambda>is_rooted.
       bindM (if is_rooted then
                bindM (assert_log_shell_command h [''sha1sum'', golden_bin]) (\<lambda>_.
                assert_log_shell_command h [''stat'', ''-c'', ''%s'', golden_bin])
              else returnM ()) (\<lambda>_.
       resolve_identity h)))))))) st1 = (Inr x, (s', t'))"
    by (rule bindM_returns)
  obtain s1 t1 where st1: "st1 = (s1, t1)" by (cases st1)
  from rest1 obtain v st2 where fm: "is_factory_mode lib h st1 = (Inr v, st2)"
    and rest2: "bindM (setM (\<lambda>s. s\<lparr>factory_mode := v\<rparr>)) (\<lambda>_.
       bindM (assert_log_prop h ''ro.product.device'') (\<lambda>_.
       bindM (assert_log_prop h ''ro.build.flavor'') (\<lambda>_.
       bindM (assert_log_prop h ''ro.build.fingerprint'') (\<lambda>_.
       bindM (assert_log_shell_command h [''uname'', ''-a'']) (\<lambda>_.
       bindM (getM root) (\<lambda>is_rooted.
       bindM (if is_rooted then
                bindM (assert_log_shell_command h [''sha1sum'', golden_bin]) (\<lambda>_.
                assert_log_shell_command h [''stat'', ''-c'', ''%s'', golden_bin])
              else returnM ()) (\<lambda>_.
       resolve_identity h))))))) st2 = (Inr x, (s', t'))"
    by (rule bindM_returns)
  obtain t2 where st2: "st2 = (s1, t2)"
    using fm is_factory_mode_session [of lib h s1 t1] st1 by (cases st2) auto
  have "frames mode_kept (bindM (assert_log_prop h ''ro.product.device'') (\<lambda>_.
       bindM (assert_log_prop h ''ro.build.flavor'') (\<lambda>_.
       bindM (assert_log_prop h ''ro.build.fingerprint'') (\<lambda>_.
       bindM (assert_log_shell_command h [''uname'', ''-a'']) (\<lambda>_.
       bindM (getM root) (\<lambda>is_rooted.
       bindM (if is_rooted then
                bindM (assert_log_shell_command h [''sha1sum'', golden_bin]) (\<lambda>_.
                assert_log_shell_command h [''stat'', ''-c'', ''%s'', golden_bin])
              else returnM ()) (\<lambda>_.
       resolve_identity h)))))) :: (neo_session, unit) action)"
    by (intro frames_bindM frames_if frames_shell_readers frames_pure frames_mode_resolve_identity
        mode_kept_order)
  then have "mode_kept (s1\<lparr>factory_mode := v\<rparr>) (fst (snd (bindM (assert_log_prop h ''ro.product.device'') (\<lambda>_.
       bindM (assert_log_prop h ''ro.build.flavor'') (\<lambda>_.
       bindM (assert_log_prop h ''ro.build.fingerprint'') (\<lambda>_.
       bindM (assert_log_shell_command h [''uname'', ''-a'']) (\<lambda>_.
       bindM (getM root) (\<lambda>is_rooted.
       bindM (if is_rooted then
                bindM (assert_log_shell_command h [''sha1sum'', golden_bin]) (\<lambda>_.
                assert_log_shell_command h [''stat'', ''-c'', ''%s'', golden_bin])
              else returnM ()) (\<lambda>_.
       resolve_identity h)))))) (s1\<lparr>factory_mode := v\<rparr>, t2))))"
    unfolding frames_def by blast
  with rest2 st2 have kept: "mode_kept (s1\<lparr>factory_mode := v\<rparr>) s'"
    by (simp add: bindM_def setM_def)
  with unrooted have "\<not> root s1" by (simp add: mode_kept_def)
  with fm st1 have "v = False" by (simp add: is_factory_mode_unrooted)
  with kept show ?thesis by (simp add: mode_kept_def)
qed

lemma example_unrooted_refresh:
  "neo_refresh_device_state python evt1_device
     (NeoADBSession\<lparr>device_serial := Some ''N1'', factory_mode := True\<rparr>, [])
   = (Inr (), (NeoADBSession\<lparr>device_name := Some ''hammerhead'', device_serial := Some ''N1'',
                 remounted := True, device_type := Some HAMMERHEAD, board_type := Some SN_UNKNOWN\<rparr>,
        [[''adb'', ''-s'', ''N1'', ''shell'', ''id'', ''-u''],
         [''adb'', ''-s'', ''N1'', ''shell'', ''mount''],
         [''adb'', ''-s'', ''N1'', ''shell'', ''getprop'', ''ro.product.device''],
         [''adb'', ''-s'', ''N1'', ''shell'', ''getprop'', ''ro.product.device''],
         [''adb'', ''-s'', ''N1'', ''shell'', ''getprop'', ''ro.build.flavor''],
         [''adb'', ''-s'', ''N1'', ''shell'', ''getprop'', ''ro.build.fingerprint''],
         [''adb'', ''-s'', ''N1'', ''shell'', ''uname'', ''-a'']]))"
  by code_simp

lemma example_cmdline_search:
  "py_re_search ''androidboot.factorytest=1'' ''console=ttyMSM0 androidboot.factorytest=1 quiet\<newline>''
     = Inr (Some (Match ''androidboot.factorytest=1'' []))"
  by code_simp

lemma example_evt1_answers:
  "subprocess_run evt1_device [] [ADB_PATH evt1_device, ''-s'', ''N1'', ''root''] 10
     = Some \<lparr>returncode = 0, stdout = ''restarting adbd as root\<newline>'', stderr = ''''\<rparr>"
  "subprocess_run evt1_device ([] @ [[ADB_PATH evt1_device, ''-s'', ''N1'', ''root'']])
       [ADB_PATH evt1_device, ''-s'', ''N1'', ''shell'', ''cat'', ''/proc/cmdline''] 10
     = Some \<lparr>returncode = 0, stdout = ''console=ttyMSM0 androidboot.factorytest=1 quiet\<newline>'', stderr = ''''\<rparr>"
  "ADB_PATH evt1_device = ''adb''"
  by (simp_all add: evt1_device_def neo_device_def bench_def scripted_def)

text \<open>
  Claim C10. On a session whose \<^verbatim>\<open>root\<close> flag is not set, \<^verbatim>\<open>is_factory_mode\<close> returns
  \<^verbatim>\<open>False\<close> and runs no command. When \<^verbatim>\<open>assert_root\<close> of such a session gains root, its
  \<^verbatim>\<open>on_root\<close> reads \<open>/proc/cmdline\<close> from the device and sets \<^verbatim>\<open>factory_mode\<close> to
  whether the text holds \<open>androidboot.factorytest=1\<close>. A refresh that returns with
  \<^verbatim>\<open>root\<close> unset has \<^verbatim>\<open>factory_mode\<close> unset.
\<close>

theorem factory_mode_needs_root:
  "(\<not> root s \<longrightarrow> is_factory_mode lib h (s, t) = (Inr False, (s, t)))
   \<and> (\<not> root s \<and> device_serial s = Some sn
        \<and> subprocess_run h t [ADB_PATH h, ''-s'', sn, ''root''] 10 = Some cp \<and> returncode cp = 0
        \<and> subprocess_run h (t @ [[ADB_PATH h, ''-s'', sn, ''root'']])
             [ADB_PATH h, ''-s'', sn, ''shell'', ''cat'', ''/proc/cmdline''] 10 = Some cp'
        \<and> returncode cp' = 0
        \<and> re_search lib ''androidboot.factorytest=1'' (stdout cp') = Inr m \<longrightarrow>
      neo_assert_root lib h (s, t)
        = (Inr (), (s\<lparr>root := True, factory_mode := (m \<noteq> None)\<rparr>,
             t @ [[ADB_PATH h, ''-s'', sn, ''root''],
                  [ADB_PATH h, ''-s'', sn, ''shell'', ''cat'', ''/proc/cmdline'']])))
   \<and> (neo_refresh_device_state lib h (s, t) = (Inr x, (s', t')) \<and> \<not> root s' \<longrightarrow> \<not> factory_mode s')"
proof (intro conjI impI)
  assume "neo_refresh_device_state lib h (s, t) = (Inr x, (s', t')) \<and> \<not> root s'"
  then show "\<not> factory_mode s'" using refresh_unrooted_not_factory [of lib h s t x s' t'] by blast
next
  assume "\<not> root s"
  then show "is_factory_mode lib h (s, t) = (Inr False, (s, t))" by (rule is_factory_mode_unrooted)
next
  assume a: "\<not> root s \<and> device_serial s = Some sn
        \<and> subprocess_run h t [ADB_PATH h, ''-s'', sn, ''root''] 10 = Some cp \<and> returncode cp = 0
        \<and> subprocess_run h (t @ [[ADB_PATH h, ''-s'', sn, ''root'']])
             [ADB_PATH h, ''-s'', sn, ''shell'', ''cat'', ''/proc/cmdline''] 10 = Some cp'
        \<and> returncode cp' = 0
        \<and> re_search lib ''androidboot.factorytest=1'' (stdout cp') = Inr m"
  then have esc: "run_command h [''root''] 10 (s, t)
      = (Inr (CommandResult [ADB_PATH h, ''-s'', sn, ''root''] cp), (s, t @ [[ADB_PATH h, ''-s'', sn, ''root'']]))"
    by (simp add: run_command_apply run_cli_command_apply)
  from a have cat: "run_shell_command h [''cat'', ''/proc/cmdline''] 10
        (s\<lparr>root := True\<rparr>, t @ [[ADB_PATH h, ''-s'', sn, ''root'']])
      = (Inr (CommandResult [ADB_PATH h, ''-s'', sn, ''shell'', ''cat'', ''/proc/cmdline''] cp'),
         (s\<lparr>root := True\<rparr>, t @ [[ADB_PATH h, ''-s'', sn, ''root''],
                  [ADB_PATH h, ''-s'', sn, ''shell'', ''cat'', ''/proc/cmdline'']]))"
    by (simp add: run_shell_command_def run_command_apply run_cli_command_apply)
  from a have hook: "neo_on_root lib h (s\<lparr>root := True\<rparr>, t @ [[ADB_PATH h, ''-s'', sn, ''root'']])
      = (Inr (), (s\<lparr>root := True, factory_mode := (m \<noteq> None)\<rparr>,
             t @ [[ADB_PATH h, ''-s'', sn, ''root''],
                  [ADB_PATH h, ''-s'', sn, ''shell'', ''cat'', ''/proc/cmdline'']]))"
    by (simp add: neo_on_root_def on_root_def is_factory_mode_def cat monad_defs
        assert_succeeded_def succeeded_def CommandResult_def contains_def contains_in_def)
  from a esc hook show "neo_assert_root lib h (s, t)
        = (Inr (), (s\<lparr>root := True, factory_mode := (m \<noteq> None)\<rparr>,
             t @ [[ADB_PATH h, ''-s'', sn, ''root''],
                  [ADB_PATH h, ''-s'', sn, ''shell'', ''cat'', ''/proc/cmdline'']]))"
    by (simp add: neo_assert_root_def assert_root_def monad_defs assert_succeeded_def succeeded_def
        CommandResult_def)
qed

theorem factory_mode_needs_root_witness:
  "is_factory_mode python evt1_device (NeoADBSession\<lparr>device_serial := Some ''N1'', factory_mode := True\<rparr>, [])
     = (Inr False, (NeoADBSession\<lparr>device_serial := Some ''N1'', factory_mode := True\<rparr>, []))
   \<and> neo_assert_root python evt1_device (NeoADBSession\<lparr>device_serial := Some ''N1''\<rparr>, [])
     = (Inr (), (NeoADBSession\<lparr>device_serial := Some ''N1'', root := True, factory_mode := True\<rparr>,
          [[''adb'', ''-s'', ''N1'', ''root''], [''adb'', ''-s'', ''N1'', ''shell'', ''cat'', ''/proc/cmdline'']]))
   \<and> fst (neo_refresh_device_state python evt1_device
          (NeoADBSession\<lparr>device_serial := Some ''N1'', factory_mode := True\<rparr>, [])) = Inr ()
   \<and> \<not> root (fst (snd (neo_refresh_device_state python evt1_device
          (NeoADBSession\<lparr>device_serial := Some ''N1'', factory_mode := True\<rparr>, []))))
   \<and> \<not> factory_mode (fst (snd (neo_refresh_device_state python evt1_device
          (NeoADBSession\<lparr>device_serial := Some ''N1'', factory_mode := True\<rparr>, []))))"
proof -
  let ?pass = "neo_refresh_device_state python evt1_device
          (NeoADBSession\<lparr>device_serial := Some ''N1'', factory_mode := True\<rparr>, [])"
  have ran: "fst ?pass = Inr ()" and low: "\<not> root (fst (snd ?pass))"
    using example_unrooted_refresh by (simp_all add: NeoADBSession_def)
  then have "?pass = (Inr (), (fst (snd ?pass), snd (snd ?pass))) \<and> \<not> root (fst (snd ?pass))"
    by (metis prod.collapse)
  with factory_mode_needs_root [where lib = python and h = evt1_device
      and s = "NeoADBSession\<lparr>device_serial := Some ''N1'', factory_mode := True\<rparr>" and t = "[]"
      and x = "()" and s' = "fst (snd ?pass)" and t' = "snd (snd ?pass)"]
  have c: "\<not> factory_mode (fst (snd ?pass))" by blast
  let ?s = "NeoADBSession\<lparr>device_serial := Some ''N1''\<rparr>"
  have u: "\<not> root (NeoADBSession\<lparr>device_serial := Some ''N1'', factory_mode := True\<rparr>)"
    by (simp add: NeoADBSession_def)
  from factory_mode_needs_root [of "NeoADBSession\<lparr>device_serial := Some ''N1'', factory_mode := True\<rparr>"
      python evt1_device "[]"] u
  have a: "is_factory_mode python evt1_device (NeoADBSession\<lparr>device_serial := Some ''N1'', factory_mode := True\<rparr>, [])
     = (Inr False, (NeoADBSession\<lparr>device_serial := Some ''N1'', factory_mode := True\<rparr>, []))"
    by blast
  have hyp: "\<not> root ?s \<and> device_serial ?s = Some ''N1''
        \<and> subprocess_run evt1_device [] [ADB_PATH evt1_device, ''-s'', ''N1'', ''root''] 10
            = Some \<lparr>returncode = 0, stdout = ''restarting adbd as root\<newline>'', stderr = ''''\<rparr>
        \<and> returncode \<lparr>returncode = 0, stdout = ''restarting adbd as root\<newline>'', stderr = ''''\<rparr> = 0
        \<and> subprocess_run evt1_device ([] @ [[ADB_PATH evt1_device, ''-s'', ''N1'', ''root'']])
             [ADB_PATH evt1_device, ''-s'', ''N1'', ''shell'', ''cat'', ''/proc/cmdline''] 10
            = Some \<lparr>returncode = 0, stdout = ''console=ttyMSM0 androidboot.factorytest=1 quiet\<newline>'', stderr = ''''\<rparr>
        \<and> returncode \<lparr>returncode = 0, stdout = ''console=ttyMSM0 androidboot.factorytest=1 quiet\<newline>'', stderr = ''''\<rparr> = 0
        \<and> re_search python ''androidboot.factorytest=1''
             (stdout \<lparr>returncode = 0, stdout = ''console=ttyMSM0 androidboot.factorytest=1 quiet\<newline>'', stderr = ''''\<rparr>)
            = Inr (Some (Match ''androidboot.factorytest=1'' []))"
    using example_evt1_answers(1,2) example_cmdline_search
    by (simp add: NeoADBSession_def python_def)
  from factory_mode_needs_root [of ?s python evt1_device "[]" "''N1''"
      "\<lparr>returncode = 0, stdout = ''restarting adbd as root\<newline>'', stderr = ''''\<rparr>"
      "\<lparr>returncode = 0, stdout = ''console=ttyMSM0 androidboot.factorytest=1 quiet\<newline>'', stderr = ''''\<rparr>"
      "Some (Match ''androidboot.factorytest=1'' [])"] hyp
  have "neo_assert_root python evt1_device (?s, [])
      = (Inr (), (?s\<lparr>root := True, factory_mode := (Some (Match ''androidboot.factorytest=1'' []) \<noteq> None)\<rparr>,
           [] @ [[ADB_PATH evt1_device, ''-s'', ''N1'', ''root''],
                 [ADB_PATH evt1_device, ''-s'', ''N1'', ''shell'', ''cat'', ''/proc/cmdline'']]))"
    by blast
  then have b: "neo_assert_root python evt1_device (?s, [])
     = (Inr (), (NeoADBSession\<lparr>device_serial := Some ''N1'', root := True, factory_mode := True\<rparr>,
          [[''adb'', ''-s'', ''N1'', ''root''], [''adb'', ''-s'', ''N1'', ''shell'', ''cat'', ''/proc/cmdline'']]))"
    by (simp add: example_evt1_answers(3))
  from a b c ran low show ?thesis by blast
qed

text \<open>
  Claim C1 fails where it says that no cached flag is set. The refresh reads the board
  revision last: binding a new session to a rooted Hammerhead in factory mode whose
  revision is 999 raises, and by then \<^verbatim>\<open>root\<close>, \<^verbatim>\<open>remounted\<close> and \<^verbatim>\<open>factory_mode\<close>, all
  unset before, have been set, with \<^verbatim>\<open>device_name\<close> and \<^verbatim>\<open>device_type\<close>.
\<close>

theorem refresh_sets_flags_before_raising:
  "\<not> root NeoADBSession \<and> \<not> remounted NeoADBSession \<and> \<not> factory_mode NeoADBSession
   \<and> bind_serial (neo_refresh_device_state python unknown_board_device) ''N1'' (NeoADBSession, [])
     = (Inl (ValueError ''999 is not a valid BoardType''),
        (NeoADBSession\<lparr>device_name := Some ''hammerhead'', device_serial := Some ''N1'', root := True,
           remounted := True, factory_mode := True, device_type := Some HAMMERHEAD\<rparr>,
         [[''adb'', ''-s'', ''N1'', ''shell'', ''id'', ''-u''],
          [''adb'', ''-s'', ''N1'', ''shell'', ''mount''],
          [''adb'', ''-s'', ''N1'', ''shell'', ''getprop'', ''ro.product.device''],
          [''adb'', ''-s'', ''N1'', ''shell'', ''cat'', ''/proc/cmdline''],
          [''adb'', ''-s'', ''N1'', ''shell'', ''getprop'', ''ro.product.device''],
          [''adb'', ''-s'', ''N1'', ''shell'', ''getprop'', ''ro.build.flavor''],
          [''adb'', ''-s'', ''N1'', ''shell'', ''getprop'', ''ro.build.fingerprint''],
          [''adb'', ''-s'', ''N1'', ''shell'', ''uname'', ''-a''],
          [''adb'', ''-s'', ''N1'', ''shell'', ''sha1sum'', ''/vendor/firmware_mnt/image/kiwi/bdwlan.elf''],
          [''adb'', ''-s'', ''N1'', ''shell'', ''stat'', ''-c'', ''%s'', ''/vendor/firmware_mnt/image/kiwi/bdwlan.elf''],
          [''adb'', ''-s'', ''N1'', ''shell'', ''cat'', ''/sys/devices/soc0/platform_subtype_id'']]))"
  by code_simp

lemma example_read_999:
  "assert_file_int unknown_board_device bt_file
     (NeoADBSession\<lparr>device_name := Some ''hammerhead'', device_serial := Some ''N1'', root := True,
        device_type := Some HAMMERHEAD\<rparr>, [])
   = (Inr 999, (NeoADBSession\<lparr>device_name := Some ''hammerhead'', device_serial := Some ''N1'', root := True,
        device_type := Some HAMMERHEAD\<rparr>,
      [[''adb'', ''-s'', ''N1'', ''shell'', ''cat'', ''/sys/devices/soc0/platform_subtype_id'']]))"
  by code_simp

lemma example_999_unmapped: "map_of BoardType_table 999 = None"
  by (simp add: BoardType_table_def)

lemma example_hammerhead: "DeviceType_of (Some ''hammerhead'') = Inr HAMMERHEAD"
  by (simp add: DeviceType_of_def)

lemma example_pass_fails:
  "isl (fst (neo_refresh_device_state python unknown_board_device (NeoADBSession\<lparr>device_serial := Some ''N1''\<rparr>, [])))"
  by code_simp

text \<open>
  Claim C1, amended. The \<^verbatim>\<open>try\<close> statement that resolves the identity raises on a device
  name that maps to no family, leaving the session and the commands run as they were, and
  on a board revision that the table does not have, having assigned \<^verbatim>\<open>device_type\<close> and
  nothing else: it sets none of the flags. A refresh that raises, wherever it does, leaves
  \<^verbatim>\<open>board_type\<close> and \<^verbatim>\<open>vendor_mcs_enabled\<close> as they were.
\<close>

theorem unmapped_identity_raises:
  "(DeviceType_of (device_name s) = Inl e \<longrightarrow>
      isl (fst (resolve_identity h (s, t))) \<and> snd (resolve_identity h (s, t)) = (s, t))
   \<and> (DeviceType_of (device_name s) = Inr dt \<and> root s
        \<and> assert_file_int h bt_file (s\<lparr>device_type := Some dt\<rparr>, t) = (Inr v, (s1, t1))
        \<and> map_of BoardType_table v = None \<longrightarrow>
      isl (fst (resolve_identity h (s, t)))
      \<and> snd (resolve_identity h (s, t)) = (s\<lparr>device_type := Some dt\<rparr>, t1))
   \<and> (isl (fst (neo_refresh_device_state lib h (s, t))) \<longrightarrow>
      board_type (fst (snd (neo_refresh_device_state lib h (s, t)))) = board_type s
      \<and> vendor_mcs_enabled (fst (snd (neo_refresh_device_state lib h (s, t)))) = vendor_mcs_enabled s)"
proof (intro conjI impI)
  assume a: "DeviceType_of (device_name s) = Inl e"
  then show "isl (fst (resolve_identity h (s, t)))" and "snd (resolve_identity h (s, t)) = (s, t)"
    by (simp_all add: resolve_identity_unknown_name)
next
  assume b: "DeviceType_of (device_name s) = Inr dt \<and> root s
        \<and> assert_file_int h bt_file (s\<lparr>device_type := Some dt\<rparr>, t) = (Inr v, (s1, t1))
        \<and> map_of BoardType_table v = None"
  then show "isl (fst (resolve_identity h (s, t)))"
    using resolve_identity_unknown_board(1) [of s dt h t v s1 t1] by blast
  from b show "snd (resolve_identity h (s, t)) = (s\<lparr>device_type := Some dt\<rparr>, t1)"
    using resolve_identity_unknown_board(2) [of s dt h t v s1 t1] by blast
next
  assume "isl (fst (neo_refresh_device_state lib h (s, t)))"
  with frames_failure_neo_refresh [of lib h]
  have k: "identity_kept s (fst (snd (neo_refresh_device_state lib h (s, t))))"
    unfolding frames_failure_def by blast
  then show "board_type (fst (snd (neo_refresh_device_state lib h (s, t)))) = board_type s"
    and "vendor_mcs_enabled (fst (snd (neo_refresh_device_state lib h (s, t)))) = vendor_mcs_enabled s"
    by (simp_all add: identity_kept_def)
qed

theorem unmapped_identity_raises_witness:
  "isl (fst (resolve_identity unknown_board_device
       (NeoADBSession\<lparr>device_name := Some ''hammerhead'', device_serial := Some ''N1'', root := True\<rparr>, [])))
   \<and> snd (resolve_identity unknown_board_device
       (NeoADBSession\<lparr>device_name := Some ''hammerhead'', device_serial := Some ''N1'', root := True\<rparr>, []))
     = (NeoADBSession\<lparr>device_name := Some ''hammerhead'', device_serial := Some ''N1'', root := True,
          device_type := Some HAMMERHEAD\<rparr>,
        [[''adb'', ''-s'', ''N1'', ''shell'', ''cat'', ''/sys/devices/soc0/platform_subtype_id'']])
   \<and> board_type (fst (snd (neo_refresh_device_state python unknown_board_device
          (NeoADBSession\<lparr>device_serial := Some ''N1''\<rparr>, [])))) = None"
proof -
  let ?s = "NeoADBSession\<lparr>device_name := Some ''hammerhead'', device_serial := Some ''N1'', root := True\<rparr>"
  let ?s1 = "NeoADBSession\<lparr>device_name := Some ''hammerhead'', device_serial := Some ''N1'', root := True,
        device_type := Some HAMMERHEAD\<rparr>"
  let ?t1 = "[[''adb'', ''-s'', ''N1'', ''shell'', ''cat'', ''/sys/devices/soc0/platform_subtype_id'']]"
  have upd: "?s\<lparr>device_type := Some HAMMERHEAD\<rparr> = ?s1" by (simp add: NeoADBSession_def)
  have hyp: "DeviceType_of (device_name ?s) = Inr HAMMERHEAD \<and> root ?s
      \<and> assert_file_int unknown_board_device bt_file (?s\<lparr>device_type := Some HAMMERHEAD\<rparr>, []) = (Inr 999, (?s1, ?t1))
      \<and> map_of BoardType_table 999 = None"
    using example_read_999 example_999_unmapped example_hammerhead
    by (simp add: NeoADBSession_def)
  from unmapped_identity_raises [of ?s _ unknown_board_device "[]" HAMMERHEAD 999 ?s1 ?t1] hyp
  have a: "isl (fst (resolve_identity unknown_board_device (?s, [])))
      \<and> snd (resolve_identity unknown_board_device (?s, [])) = (?s\<lparr>device_type := Some HAMMERHEAD\<rparr>, ?t1)"
    by blast
  from unmapped_identity_raises [of "NeoADBSession\<lparr>device_serial := Some ''N1''\<rparr>" _ unknown_board_device "[]" _ _ _ _ python]
    example_pass_fails
  have "board_type (fst (snd (neo_refresh_device_state python unknown_board_device
          (NeoADBSession\<lparr>device_serial := Some ''N1''\<rparr>, [])))) = board_type (NeoADBSession\<lparr>device_serial := Some ''N1''\<rparr>)"
    by blast
  then have b: "board_type (fst (snd (neo_refresh_device_state python unknown_board_device
          (NeoADBSession\<lparr>device_serial := Some ''N1''\<rparr>, [])))) = None"
    by (simp add: NeoADBSession_def)
  from a b upd show ?thesis by simp
qed

subsection \<open>Vendor services\<close>

lemma extends_bindM:
  assumes "extends m" "\<And>x. extends (f x)"
  shows "extends (bindM m f)"
  unfolding extends_def
proof (intro allI)
  fix s t
  obtain r s1 t1 where eq: "m (s, t) = (r, (s1, t1))" by (metis prod.collapse)
  with assms(1) obtain u where u: "t1 = t @ u" unfolding extends_def by (metis snd_conv)
  show "\<exists>w. snd (snd (bindM m f (s, t))) = t @ w"
  proof (cases r)
    case (Inl e)
    with eq u show ?thesis by (simp add: bindM_def)
  next
    case (Inr x)
    from assms(2) [of x] obtain w where "snd (snd (f x (s1, t1))) = t1 @ w"
      unfolding extends_def by blast
    with eq Inr u show ?thesis by (simp add: bindM_def)
  qed
qed

lemma extends_pure:
  "extends (returnM x)" "extends (raiseM e)" "extends (liftE r)" "extends (getM g)" "extends (setM upd)"
  by (simp_all add: extends_def monad_defs)

lemma extends_if: "extends a \<Longrightarrow> extends b \<Longrightarrow> extends (if c then a else b)"
  by simp

lemma extends_run_command: "extends (run_command h cmd n)"
  unfolding extends_def by (simp add: run_command_trace split: option.splits)

lemma extends_run_shell_command: "extends (run_shell_command h cmd n)"
  by (simp add: run_shell_command_def extends_run_command)

lemma extends_shell_readers:
  "extends (assert_string_cmd h cmd)" "extends (assert_succeeded_cmd h cmd n)"
  "extends (assert_set_prop h prop v)" "extends (assert_ctl_start h svc)" "extends (assert_ctl_stop h svc)"
  unfolding assert_string_cmd_def assert_succeeded_cmd_def assert_set_prop_def assert_ctl_start_def
    assert_ctl_stop_def
  by (intro extends_bindM extends_run_shell_command extends_pure)+

lemma extends_is_factory_mode: "extends (is_factory_mode lib h)"
  unfolding is_factory_mode_def
  by (intro extends_bindM extends_if extends_run_shell_command extends_pure)

lemma extends_neo_on_root: "extends (neo_on_root lib h)"
  unfolding neo_on_root_def on_root_def
  by (intro extends_bindM extends_is_factory_mode extends_pure)

lemma extends_assert_root: "extends hook \<Longrightarrow> extends (assert_root hook h)"
  unfolding assert_root_def
  by (intro extends_bindM extends_if extends_run_command extends_pure)

lemma reaches_bindM:
  assumes "\<exists>u. snd (snd (m st)) = t1 @ u" "\<And>x. extends (f x)"
  shows "\<exists>u. snd (snd (bindM m f st)) = t1 @ u"
proof -
  obtain r s1 t2 where eq: "m st = (r, (s1, t2))" by (metis prod.collapse)
  with assms(1) obtain u where u: "t2 = t1 @ u" by auto
  show ?thesis
  proof (cases r)
    case (Inl e)
    with eq u show ?thesis by (simp add: bindM_def)
  next
    case (Inr x)
    from assms(2) [of x] obtain w where "snd (snd (f x (s1, t2))) = t2 @ w"
      unfolding extends_def by blast
    with eq Inr u show ?thesis by (simp add: bindM_def)
  qed
qed

lemma getenforce_reaches:
  assumes "device_serial s = Some sn"
  shows "\<exists>u. snd (snd (run_shell_command h [''getenforce''] 10 (s, t)))
           = (t @ [[ADB_PATH h, ''-s'', sn, ''shell'', ''getenforce'']]) @ u"
  using assms by (simp add: run_shell_command_def run_command_trace)

lemma enable_vendor_MCS_first_command:
  assumes "root s" "device_serial s = Some sn"
  shows "\<exists>u. snd (snd (assert_enable_vendor_MCS lib h (s, t)))
            = t @ [ADB_PATH h, ''-s'', sn, ''shell'', ''getenforce''] # u"
proof -
  let ?hook = "neo_on_root lib h"
  have rooted: "assert_enable_vendor_MCS lib h (s, t) =
      bindM (assert_set_selinux_enforcing ?hook h True) (\<lambda>_.
      bindM (assert_ctl_start h ''captureengineservice'') (\<lambda>_.
      bindM (assert_ctl_start h ''vendor.camera-provider-2-7'') (\<lambda>_.
      setM (\<lambda>s. s\<lparr>vendor_mcs_enabled := True\<rparr>)))) (s, t)"
    using assms(1) by (simp add: assert_enable_vendor_MCS_def assert_root_rooted bindM_def)
  have "\<exists>u. snd (snd (bindM (assert_set_selinux_enforcing ?hook h True) (\<lambda>_.
      bindM (assert_ctl_start h ''captureengineservice'') (\<lambda>_.
      bindM (assert_ctl_start h ''vendor.camera-provider-2-7'') (\<lambda>_.
      setM (\<lambda>s. s\<lparr>vendor_mcs_enabled := True\<rparr>)))) (s, t)))
        = (t @ [[ADB_PATH h, ''-s'', sn, ''shell'', ''getenforce'']]) @ u"
    unfolding assert_set_selinux_enforcing_def is_selinux_enforcing_def assert_string_cmd_def
    by (intro reaches_bindM getenforce_reaches assms(2) extends_bindM extends_if extends_pure
        extends_shell_readers extends_assert_root extends_neo_on_root)
  with rooted show ?thesis by simp
qed

lemma cached_operations_return_at_once:
  "root s \<Longrightarrow> assert_root hook h (s, t) = (Inr (), (s, t))"
  "remounted s \<Longrightarrow> assert_remount h (s, t) = (Inr (), (s, t))"
  "\<not> vendor_mcs_enabled n \<Longrightarrow> assert_disable_vendor_MCS lib h (n, t) = (Inr (), (n, t))"
  by (simp_all add: assert_root_def assert_remount_def assert_disable_vendor_MCS_def monad_defs)

lemma example_enable:
  "assert_enable_vendor_MCS python evt1_device (NeoADBSession\<lparr>device_serial := Some ''N1'', root := True\<rparr>, [])
     = (Inr (), (NeoADBSession\<lparr>device_serial := Some ''N1'', root := True\<rparr>,
          [[''adb'', ''-s'', ''N1'', ''shell'', ''getenforce''],
           [''adb'', ''-s'', ''N1'', ''shell'', ''setprop'', ''ctl.start'', ''captureengineservice''],
           [''adb'', ''-s'', ''N1'', ''shell'', ''setprop'', ''ctl.start'', ''vendor.camera-provider-2-7'']]))"
  by code_simp

text \<open>
  Claim C3 against the code. \<^verbatim>\<open>assert_enable_vendor_MCS\<close> has no test of the cached flag:
  on every rooted session with a serial number, whatever \<^verbatim>\<open>vendor_mcs_enabled\<close> holds, it
  runs \<open>getenforce\<close> on the device before anything else. Its sibling
  \<^verbatim>\<open>assert_disable_vendor_MCS\<close> returns at once, with no command run, when the flag
  is already unset.
\<close>

theorem enable_vendor_MCS_always_issues:
  "(root s \<and> device_serial s = Some sn \<longrightarrow>
      (\<exists>u. snd (snd (assert_enable_vendor_MCS lib h (s, t)))
             = t @ [ADB_PATH h, ''-s'', sn, ''shell'', ''getenforce''] # u))
   \<and> (\<not> vendor_mcs_enabled s \<longrightarrow> assert_disable_vendor_MCS lib h (s, t) = (Inr (), (s, t)))"
proof (intro conjI impI)
  assume "root s \<and> device_serial s = Some sn"
  then show "\<exists>u. snd (snd (assert_enable_vendor_MCS lib h (s, t)))
             = t @ [ADB_PATH h, ''-s'', sn, ''shell'', ''getenforce''] # u"
    using enable_vendor_MCS_first_command [of s sn lib h t] by blast
next
  assume "\<not> vendor_mcs_enabled s"
  then show "assert_disable_vendor_MCS lib h (s, t) = (Inr (), (s, t))"
    by (simp add: assert_disable_vendor_MCS_def monad_defs)
qed

theorem enable_vendor_MCS_always_issues_witness:
  "vendor_mcs_enabled (NeoADBSession\<lparr>device_serial := Some ''N1'', root := True\<rparr>)
   \<and> (\<exists>u. snd (snd (assert_enable_vendor_MCS python evt1_device
               (NeoADBSession\<lparr>device_serial := Some ''N1'', root := True\<rparr>, [])))
          = [ADB_PATH evt1_device, ''-s'', ''N1'', ''shell'', ''getenforce''] # u)
   \<and> assert_enable_vendor_MCS python evt1_device (NeoADBSession\<lparr>device_serial := Some ''N1'', root := True\<rparr>, [])
     = (Inr (), (NeoADBSession\<lparr>device_serial := Some ''N1'', root := True\<rparr>,
          [[''adb'', ''-s'', ''N1'', ''shell'', ''getenforce''],
           [''adb'', ''-s'', ''N1'', ''shell'', ''setprop'', ''ctl.start'', ''captureengineservice''],
           [''adb'', ''-s'', ''N1'', ''shell'', ''setprop'', ''ctl.start'', ''vendor.camera-provider-2-7'']]))
   \<and> assert_disable_vendor_MCS python evt1_device
        (NeoADBSession\<lparr>device_serial := Some ''N1'', root := True, vendor_mcs_enabled := False\<rparr>, [])
     = (Inr (), (NeoADBSession\<lparr>device_serial := Some ''N1'', root := True, vendor_mcs_enabled := False\<rparr>, []))"
proof -
  let ?s = "NeoADBSession\<lparr>device_serial := Some ''N1'', root := True\<rparr>"
  let ?d = "NeoADBSession\<lparr>device_serial := Some ''N1'', root := True, vendor_mcs_enabled := False\<rparr>"
  have on: "vendor_mcs_enabled ?s" by (simp add: NeoADBSession_def)
  have hyp: "root ?s \<and> device_serial ?s = Some ''N1''" by simp
  have off: "\<not> vendor_mcs_enabled ?d" by simp
  from enable_vendor_MCS_always_issues [of ?s "''N1''" python evt1_device "[]"] hyp
  have a: "\<exists>u. snd (snd (assert_enable_vendor_MCS python evt1_device (?s, [])))
          = [ADB_PATH evt1_device, ''-s'', ''N1'', ''shell'', ''getenforce''] # u"
    by simp
  from enable_vendor_MCS_always_issues [of ?d _ python evt1_device "[]"] off
  have b: "assert_disable_vendor_MCS python evt1_device (?d, []) = (Inr (), (?d, []))" by blast
  from on a b example_enable show ?thesis by blast
qed

subsection \<open>Binding\<close>

text \<open>
  Claim C6 fails in the kind of the error. With no device attached, binding without a
  serial number raises \<^verbatim>\<open>ADBAssertionError\<close>, the class of every failed assertion on a
  command result, after the one command \<open>adb devices\<close>.
\<close>

theorem no_device_is_assertion_error:
  "bind_session (neo_refresh_device_state python no_device) python no_device None (NeoADBSession, [])
     = (Inl (ADBAssertionError no_devices_message), (NeoADBSession, [[''adb'', ''devices'']]))
   \<and> is_ADBAssertionError (ADBAssertionError no_devices_message)"
  by code_simp

lemma example_listing:
  "py_re_search devices_header two_devices = Inr (Some (Match ''List of devices attached\<newline>'' []))"
  "py_re_search device_line two_devices = Inr (Some (Match (''N1'' @ [CHR 0x09] @ ''device'') [Some ''N1'']))"
  by code_simp+

lemma example_listing_answer:
  "subprocess_run evt1_device [] [ADB_PATH evt1_device, ''devices''] 10
     = Some \<lparr>returncode = 0, stdout = two_devices, stderr = ''''\<rparr>"
  by (simp add: evt1_device_def neo_device_def bench_def scripted_def)

lemma example_refresh_evt1:
  "neo_refresh_device_state python evt1_device
     (NeoADBSession\<lparr>device_serial := Some ''N1''\<rparr>, [] @ [[ADB_PATH evt1_device, ''devices'']])
   = (Inr (), (NeoADBSession\<lparr>device_name := Some ''hammerhead'', device_serial := Some ''N1'',
                 remounted := True, device_type := Some HAMMERHEAD, board_type := Some SN_UNKNOWN\<rparr>,
        [[''adb'', ''devices''],
         [''adb'', ''-s'', ''N1'', ''shell'', ''id'', ''-u''],
         [''adb'', ''-s'', ''N1'', ''shell'', ''mount''],
         [''adb'', ''-s'', ''N1'', ''shell'', ''getprop'', ''ro.product.device''],
         [''adb'', ''-s'', ''N1'', ''shell'', ''getprop'', ''ro.product.device''],
         [''adb'', ''-s'', ''N1'', ''shell'', ''getprop'', ''ro.build.flavor''],
         [''adb'', ''-s'', ''N1'', ''shell'', ''getprop'', ''ro.build.fingerprint''],
         [''adb'', ''-s'', ''N1'', ''shell'', ''uname'', ''-a'']]))"
  by code_simp

text \<open>
  Claim C6, amended. Binding without a serial number is \<^verbatim>\<open>bind_with_first_device\<close>. It
  runs \<open>adb devices\<close>, with no serial number; when the listing has its header and
  \<open>re.search\<close> finds no line of an attached device, it raises \<^verbatim>\<open>ADBAssertionError\<close> with the
  no-devices message; when \<open>re.search\<close> finds one (its match is the leftmost), the first
  group of the match becomes the serial number and the session is refreshed.
\<close>

theorem bind_with_first_device_selects:
  "(subprocess_run h t [ADB_PATH h, ''devices''] 10 = Some cp \<and> returncode cp = 0
      \<and> re_search lib devices_header (stdout cp) = Inr (Some m)
      \<and> re_search lib device_line (stdout cp) = Inr None \<longrightarrow>
      bind_with_first_device refresh lib h (s, t)
        = (Inl (ADBAssertionError no_devices_message), (s, t @ [[ADB_PATH h, ''devices'']])))
   \<and> (subprocess_run h t [ADB_PATH h, ''devices''] 10 = Some cp \<and> returncode cp = 0
      \<and> re_search lib devices_header (stdout cp) = Inr (Some m)
      \<and> re_search lib device_line (stdout cp) = Inr (Some (Match w (g # gs))) \<longrightarrow>
      bind_with_first_device refresh lib h (s, t)
        = refresh (s\<lparr>device_serial := Some (py_str g)\<rparr>, t @ [[ADB_PATH h, ''devices'']]))
   \<and> bind_session refresh lib h None = bind_with_first_device refresh lib h"
proof (intro conjI impI)
  assume a: "subprocess_run h t [ADB_PATH h, ''devices''] 10 = Some cp \<and> returncode cp = 0
      \<and> re_search lib devices_header (stdout cp) = Inr (Some m)
      \<and> re_search lib device_line (stdout cp) = Inr None"
  then show "bind_with_first_device refresh lib h (s, t)
        = (Inl (ADBAssertionError no_devices_message), (s, t @ [[ADB_PATH h, ''devices'']]))"
    by (simp add: bind_with_first_device_def run_adb_command_def run_cli_command_apply monad_defs
        assert_succeeded_def succeeded_def CommandResult_def assert_contains_def contains_def
        contains_in_def search_def search_in_def)
next
  assume a: "subprocess_run h t [ADB_PATH h, ''devices''] 10 = Some cp \<and> returncode cp = 0
      \<and> re_search lib devices_header (stdout cp) = Inr (Some m)
      \<and> re_search lib device_line (stdout cp) = Inr (Some (Match w (g # gs)))"
  then show "bind_with_first_device refresh lib h (s, t)
        = refresh (s\<lparr>device_serial := Some (py_str g)\<rparr>, t @ [[ADB_PATH h, ''devices'']])"
    by (simp add: bind_with_first_device_def run_adb_command_def run_cli_command_apply monad_defs
        assert_succeeded_def succeeded_def CommandResult_def assert_contains_def contains_def
        contains_in_def search_def search_in_def bind_serial_def)
next
  show "bind_session refresh lib h None = bind_with_first_device refresh lib h"
    by (simp add: bind_session_def)
qed

theorem bind_with_first_device_selects_witness:
  "bind_with_first_device (neo_refresh_device_state python evt1_device) python evt1_device (NeoADBSession, [])
   = (Inr (), (NeoADBSession\<lparr>device_name := Some ''hammerhead'', device_serial := Some ''N1'',
                 remounted := True, device_type := Some HAMMERHEAD, board_type := Some SN_UNKNOWN\<rparr>,
        [[''adb'', ''devices''],
         [''adb'', ''-s'', ''N1'', ''shell'', ''id'', ''-u''],
         [''adb'', ''-s'', ''N1'', ''shell'', ''mount''],
         [''adb'', ''-s'', ''N1'', ''shell'', ''getprop'', ''ro.product.device''],
         [''adb'', ''-s'', ''N1'', ''shell'', ''getprop'', ''ro.product.device''],
         [''adb'', ''-s'', ''N1'', ''shell'', ''getprop'', ''ro.build.flavor''],
         [''adb'', ''-s'', ''N1'', ''shell'', ''getprop'', ''ro.build.fingerprint''],
         [''adb'', ''-s'', ''N1'', ''shell'', ''uname'', ''-a'']]))"
proof -
  let ?cp = "\<lparr>returncode = 0, stdout = two_devices, stderr = ''''\<rparr>"
  have hyp: "subprocess_run evt1_device [] [ADB_PATH evt1_device, ''devices''] 10 = Some ?cp
      \<and> returncode ?cp = 0
      \<and> re_search python devices_header (stdout ?cp) = Inr (Some (Match ''List of devices attached\<newline>'' []))
      \<and> re_search python device_line (stdout ?cp)
          = Inr (Some (Match (''N1'' @ [CHR 0x09] @ ''device'') (Some ''N1'' # [])))"
    using example_listing example_listing_answer by (simp add: python_def)
  from bind_with_first_device_selects [of evt1_device "[]" ?cp python
      "Match ''List of devices attached\<newline>'' []" "neo_refresh_device_state python evt1_device"
      NeoADBSession "''N1'' @ [CHR 0x09] @ ''device''" "Some ''N1''" "[]"] hyp
  have "bind_with_first_device (neo_refresh_device_state python evt1_device) python evt1_device (NeoADBSession, [])
      = neo_refresh_device_state python evt1_device
          (NeoADBSession\<lparr>device_serial := Some (py_str (Some ''N1''))\<rparr>, [] @ [[ADB_PATH evt1_device, ''devices'']])"
    by blast
  with example_refresh_evt1 show ?thesis by simp
qed

end
